theory Spec2Isabelle
  imports Main "HOL-Library.Word" "HOL-Library.Sublist" "HOL-Library.AList"
begin

unbundle bit_operations_syntax

section \<open>Values shared by the operations of \<open>Scene\<close>\<close>

subsection \<open>Results\<close>

text \<open>
  \<open>Result\<close> is used through \<open>Result::ok()\<close>, \<open>Result::error(message)\<close> and
  \<open>isError()\<close> only: a success, or one error carrying its message.
\<close>

datatype Result = Ok | Error string

fun isError :: "Result \<Rightarrow> bool" where
  "isError Ok = False"
| "isError (Error m) = True"

subsection \<open>Single-precision floats\<close>

text \<open>
  A \<open>float\<close> is its IEEE 754 binary32 bit pattern: sign bit 31, exponent bits 30..23,
  fraction bits 22..0. The source only compares floats and copies them, so no
  arithmetic is modelled. \<open>float_ne\<close> is the operator \<open>!=\<close>: a NaN differs from
  everything (itself included), the two zeros are equal, every other value is equal to
  its own bit pattern only.
\<close>

type_synonym float32 = "32 word"

definition float_isnan :: "float32 \<Rightarrow> bool" where
  "float_isnan w = (0x7F800000 < (w AND 0x7FFFFFFF))"

definition float_iszero :: "float32 \<Rightarrow> bool" where
  "float_iszero w = (w AND 0x7FFFFFFF = 0)"

definition float_eq :: "float32 \<Rightarrow> float32 \<Rightarrow> bool" where
  "float_eq a b =
     (\<not> float_isnan a \<and> \<not> float_isnan b \<and> (a = b \<or> (float_iszero a \<and> float_iszero b)))"

definition float_ne :: "float32 \<Rightarrow> float32 \<Rightarrow> bool" where
  "float_ne a b = (\<not> float_eq a b)"

text \<open>The literal \<open>1.0f\<close>: sign 0, exponent 127, fraction 0.\<close>

definition float_one :: float32 where
  "float_one = 0x3F800000"

subsection \<open>JSON documents\<close>

text \<open>
  The documents built with the JSON library: booleans, unsigned integers (from
  \<open>unsigned int\<close> and \<open>size_t\<close>), floats, strings, arrays and objects. An object is
  a list of key/value pairs with distinct keys; it is read by key (\<open>field\<close>, \<open>at\<close>),
  and \<open>result[key] = value\<close> replaces the value of a key or adds the key.
\<close>

datatype json =
    JNull
  | JBool bool
  | JUnsigned nat
  | JFloat float32
  | JString string
  | JArray "json list"
  | JObject "(string \<times> json) list"

fun field :: "string \<Rightarrow> json \<Rightarrow> json option" where
  "field k (JObject kvs) = map_of kvs k"
| "field k j = None"

fun at :: "string list \<Rightarrow> json \<Rightarrow> json option" where
  "at [] j = Some j"
| "at (k # ks) j = (case field k j of None \<Rightarrow> None | Some j' \<Rightarrow> at ks j')"

fun keys :: "json \<Rightarrow> string list" where
  "keys (JObject kvs) = map fst kvs"
| "keys j = []"

fun set_field :: "string \<Rightarrow> json \<Rightarrow> json \<Rightarrow> json" where
  "set_field k v (JObject kvs) = JObject (AList.update k v kvs)"
| "set_field k v j = JObject [(k, v)]"

section \<open>\<open>Scene::getJsonStatus\<close>\<close>

definition getJsonStatus :: "string \<Rightarrow> json" where
  "getJsonStatus errorMessage =
     (let isError = (errorMessage \<noteq> []);
          result = JObject
            [(''type'', JString ''status''),
             (''status'', JString (if isError then ''error'' else ''ok''))]
      in if isError then set_field ''error'' (JString errorMessage) result else result)"

section \<open>The configuration and the collaborators\<close>

subsection \<open>\<open>Options\<close>\<close>

text \<open>
  The fields of \<open>_options\<close> that \<open>Scene.cpp\<close> reads (\<open>outputPath\<close> is the field
  \<open>output\<close>). \<open>Vector3f\<close> is used through its
  components and \<open>allZero()\<close>, the matrix through \<open>isIdentity()\<close> only, so the matrix
  type is a parameter. The alignment modes other than \<open>Align::None\<close> do not occur in
  the source.
\<close>

record Vector3f =
  vec_x :: float32
  vec_y :: float32
  vec_z :: float32

text \<open>Modelled from the spec: the enumeration \<open>Align\<close> is declared outside the source
  file; the specification lists its modes as None, Min, Center, Max.\<close>

datatype Align = Align_None | Align_Min | Align_Center | Align_Max

record 'm Options =
  input :: string
  outputPath :: string
  format :: string
  verbose :: bool
  swizzle :: string
  scale :: float32
  alignX :: Align
  alignY :: Align
  alignZ :: Align
  translate :: Vector3f
  matrix :: 'm
  flipUV :: bool
  stripNormals :: bool
  stripTexCoords :: bool
  joinVertices :: bool
  metallicFactor :: float32
  roughnessFactor :: float32
  diffuseMap :: string
  occlusionMap :: string
  emissiveMap :: string
  metallicRoughnessMap :: string
  zoneMap :: string
  normalMap :: string
  embedMaps :: bool
  useCompression :: bool
  objectSpaceNormals :: bool
  positionQuantizationBits :: int
  texCoordsQuantizationBits :: int
  normalsQuantizationBits :: int
  genericQuantizationBits :: int
  compressionLevel :: int

text \<open>The two predicates of the vector library that \<open>Scene::process\<close> calls.\<close>

record 'm Flow =
  allZero :: "Vector3f \<Rightarrow> bool"
  isIdentity :: "'m \<Rightarrow> bool"

subsection \<open>The import library\<close>

text \<open>
  The flag constants of the import library are named in the source and declared in the
  library's headers, so they are parameters here. \<open>independent_flags\<close> says what the
  interface promises of them: every flag is a non-empty group of bits and no two flags
  share a bit.
\<close>

record Assimp_flags =
  aiComponent_MATERIALS :: "32 word"
  aiComponent_TEXTURES :: "32 word"
  aiComponent_LIGHTS :: "32 word"
  aiComponent_CAMERAS :: "32 word"
  aiComponent_ANIMATIONS :: "32 word"
  aiComponent_BONEWEIGHTS :: "32 word"
  aiComponent_COLORS :: "32 word"
  aiComponent_NORMALS :: "32 word"
  aiComponent_TANGENTS_AND_BITANGENTS :: "32 word"
  aiComponent_TEXCOORDS :: "32 word"
  aiProcess_RemoveComponent :: "32 word"
  aiProcess_JoinIdenticalVertices :: "32 word"
  aiProcess_Triangulate :: "32 word"

fun independent_flags :: "32 word list \<Rightarrow> bool" where
  "independent_flags [] = True"
| "independent_flags (f # fs) =
     (f \<noteq> 0 \<and> list_all (\<lambda>g. f AND g = 0) fs \<and> independent_flags fs)"

definition component_flags :: "Assimp_flags \<Rightarrow> 32 word list" where
  "component_flags A =
     [aiComponent_MATERIALS A, aiComponent_TEXTURES A, aiComponent_LIGHTS A,
      aiComponent_CAMERAS A, aiComponent_ANIMATIONS A, aiComponent_BONEWEIGHTS A,
      aiComponent_COLORS A, aiComponent_NORMALS A,
      aiComponent_TANGENTS_AND_BITANGENTS A, aiComponent_TEXCOORDS A]"

text \<open>A flag is requested by a flag word when all its bits are set in the word.\<close>

definition requested :: "32 word \<Rightarrow> 32 word \<Rightarrow> bool" where
  "requested flags f = (flags AND f = f)"

text \<open>
  \<open>ReadFile\<close> gets the value stored under \<open>AI_CONFIG_PP_RVC_FLAGS\<close>, the path and the
  process flags; it returns the scene, or the error string of the importer when the
  scene pointer is null.
\<close>

record 's Importer =
  ReadFile :: "32 word \<Rightarrow> string \<Rightarrow> 32 word \<Rightarrow> string + 's"

datatype import_call = Call_ReadFile "32 word" string "32 word"

subsection \<open>The exporters\<close>

record GLTFDracoOptions =
  draco_positionQuantizationBits :: int
  draco_texCoordsQuantizationBits :: int
  draco_normalsQuantizationBits :: int
  draco_genericQuantizationBits :: int
  draco_compressionLevel :: int

record GLTFExporterOptions =
  gltf_verbose :: bool
  gltf_metallicFactor :: float32
  gltf_roughnessFactor :: float32
  gltf_diffuseMapFile :: string
  gltf_occlusionMapFile :: string
  gltf_emissiveMapFile :: string
  gltf_metallicRoughnessMapFile :: string
  gltf_zoneMapFile :: string
  gltf_normalMapFile :: string
  gltf_embedMaps :: bool
  gltf_useCompression :: bool
  gltf_objectSpaceNormals :: bool
  gltf_stripNormals :: bool
  gltf_stripTexCoords :: bool
  gltf_writeBinary :: bool
  gltf_draco :: GLTFDracoOptions

record aiExportFormatDesc =
  desc_id :: string
  desc_description :: string
  desc_fileExtension :: string

datatype aiReturn = aiReturn_SUCCESS | aiReturn_FAILURE | aiReturn_OUTOFMEMORY

text \<open>
  \<open>GLTFExporter_exportScene\<close> is \<open>GLTFExporter::exportScene\<close> after \<open>setOptions\<close>;
  \<open>Exporter_Export\<close> is \<open>Assimp::Exporter::Export\<close>, returning its code together with
  what \<open>GetErrorString\<close> gives afterwards; \<open>exportFormats\<close> is the table read through
  \<open>aiGetExportFormatCount\<close> and \<open>aiGetExportFormatDescription\<close>.
\<close>

record 's Exporters =
  GLTFExporter_exportScene :: "GLTFExporterOptions \<Rightarrow> 's \<Rightarrow> string \<Rightarrow> Result"
  Exporter_Export :: "'s \<Rightarrow> string \<Rightarrow> string \<Rightarrow> 32 word \<Rightarrow> aiReturn \<times> string"
  exportFormats :: "aiExportFormatDesc list"

text \<open>The calls made to the exporters, with the arguments that decide the file written.\<close>

datatype export_call =
    Call_exportScene GLTFExporterOptions string
  | Call_Export string string "32 word"

subsection \<open>The processor\<close>

text \<open>
  The six operations of \<open>Processor\<close> that \<open>Scene::process\<close> calls. The source calls
  each as a statement, discarding whatever it returns, so an operation is its effect on
  the scene. An operation that ends in an exception is outside the model: the source
  catches none. A call is recorded with its arguments.
\<close>

record ('s, 'm) Processor =
  Processor_swizzle :: "'s \<Rightarrow> string \<Rightarrow> 's"
  Processor_scale :: "'s \<Rightarrow> float32 \<Rightarrow> 's"
  Processor_align :: "'s \<Rightarrow> Align \<Rightarrow> Align \<Rightarrow> Align \<Rightarrow> 's"
  Processor_translate :: "'s \<Rightarrow> Vector3f \<Rightarrow> 's"
  Processor_transform :: "'s \<Rightarrow> 'm \<Rightarrow> 's"
  Processor_flipUVs :: "'s \<Rightarrow> bool \<Rightarrow> bool \<Rightarrow> 's"

datatype 'm Processor_call =
    Call_swizzle string
  | Call_scale float32
  | Call_align Align Align Align
  | Call_translate Vector3f
  | Call_transform 'm
  | Call_flipUVs bool bool

datatype operation = Op_swizzle | Op_scale | Op_align | Op_translate | Op_transform | Op_flipUVs

fun operation_of :: "'m Processor_call \<Rightarrow> operation" where
  "operation_of (Call_swizzle order) = Op_swizzle"
| "operation_of (Call_scale factor) = Op_scale"
| "operation_of (Call_align ax ay az) = Op_align"
| "operation_of (Call_translate v) = Op_translate"
| "operation_of (Call_transform m) = Op_transform"
| "operation_of (Call_flipUVs u v) = Op_flipUVs"

fun perform :: "('s, 'm) Processor \<Rightarrow> 's \<Rightarrow> 'm Processor_call \<Rightarrow> 's" where
  "perform P s (Call_swizzle order) = Processor_swizzle P s order"
| "perform P s (Call_scale factor) = Processor_scale P s factor"
| "perform P s (Call_align ax ay az) = Processor_align P s ax ay az"
| "perform P s (Call_translate v) = Processor_translate P s v"
| "perform P s (Call_transform m) = Processor_transform P s m"
| "perform P s (Call_flipUVs u v) = Processor_flipUVs P s u v"

text \<open>The state of a run: the scene and the calls made so far, oldest first.\<close>

definition invoke ::
  "('s, 'm) Processor \<Rightarrow> 'm Processor_call \<Rightarrow> 's \<times> 'm Processor_call list
     \<Rightarrow> 's \<times> 'm Processor_call list" where
  "invoke P c st = (perform P (fst st) c, snd st @ [c])"

subsection \<open>The scene read by the report\<close>

text \<open>
  The report reads the counters of a mesh and the answers of its query methods
  (\<open>HasNormals()\<close>, \<open>HasTextureCoords(0)\<close>, \<open>GetNumUVChannels()\<close>, ...), kept here as
  fields; counters are \<open>unsigned int\<close>. The array \<open>mMeshes\<close> with its length
  \<open>mNumMeshes\<close> is a list. \<open>Range3f\<close> and \<open>Processor::calculateBoundingBox\<close> are used
  through the operations of \<open>Geometry\<close>.
\<close>

record aiMesh =
  mVertices :: "Vector3f list"
  mNumVertices :: "32 word"
  mNumFaces :: "32 word"
  HasNormals :: bool
  HasTangentsAndBitangents :: bool
  HasBones :: bool
  HasTextureCoords0 :: bool
  GetNumUVChannels :: "32 word"
  HasVertexColors0 :: bool
  GetNumColorChannels :: "32 word"

record aiScene =
  mMeshes :: "aiMesh list"
  mNumMaterials :: "32 word"
  mNumTextures :: "32 word"
  mNumLights :: "32 word"
  mNumCameras :: "32 word"
  mNumAnimations :: "32 word"

definition mNumMeshes :: "aiScene \<Rightarrow> 32 word" where
  "mNumMeshes pScene = of_nat (length (mMeshes pScene))"

record 'r Geometry =
  Range3f_new :: 'r
  Range3f_invalidate :: "'r \<Rightarrow> 'r"
  Range3f_uniteWith :: "'r \<Rightarrow> 'r \<Rightarrow> 'r"
  Range3f_lowerBound :: "'r \<Rightarrow> Vector3f"
  Range3f_upperBound :: "'r \<Rightarrow> Vector3f"
  Range3f_size :: "'r \<Rightarrow> Vector3f"
  Range3f_center :: "'r \<Rightarrow> Vector3f"
  Processor_calculateBoundingBox :: "aiMesh \<Rightarrow> 'r"

section \<open>The operations of \<open>Scene\<close>\<close>

text \<open>
  What is printed to the console when \<open>verbose\<close> is set is not modelled: it changes
  neither a result nor a call.
\<close>

subsection \<open>\<open>Scene::load\<close>\<close>

definition load_removeFlags :: "Assimp_flags \<Rightarrow> 'm Options \<Rightarrow> 32 word" where
  "load_removeFlags A opts =
     (let removeFlags =
            aiComponent_MATERIALS A OR aiComponent_TEXTURES A OR aiComponent_LIGHTS A
              OR aiComponent_CAMERAS A OR aiComponent_ANIMATIONS A
              OR aiComponent_BONEWEIGHTS A OR aiComponent_COLORS A;
          removeFlags =
            (if stripNormals opts
             then removeFlags OR (aiComponent_NORMALS A OR aiComponent_TANGENTS_AND_BITANGENTS A)
             else removeFlags);
          removeFlags =
            (if stripTexCoords opts then removeFlags OR aiComponent_TEXCOORDS A
             else removeFlags)
      in removeFlags)"

text \<open>
  The result, the new value of \<open>_pScene\<close> (\<open>None\<close> is the null pointer) and the call
  made to the importer.
\<close>

definition load ::
  "Assimp_flags \<Rightarrow> 's Importer \<Rightarrow> 'm Options \<Rightarrow> Result \<times> 's option \<times> import_call list" where
  "load A I opts =
     (let removeFlags = load_removeFlags A opts;
          processFlags =
            aiProcess_RemoveComponent A OR aiProcess_JoinIdenticalVertices A
              OR aiProcess_Triangulate A;
          calls = [Call_ReadFile removeFlags (input opts) processFlags]
      in case ReadFile I removeFlags (input opts) processFlags of
           Inl errorString \<Rightarrow>
             (Error (''failed to read input file: '' @ input opts @ '', reason: '' @ errorString),
              None, calls)
         | Inr pScene \<Rightarrow> (Ok, Some pScene, calls))"

subsection \<open>\<open>Scene::save\<close>\<close>

text \<open>
  \<open>find_last_of\<close> gives the last position holding one of the characters, \<open>None\<close> for
  \<open>npos\<close>; \<open>substr\<close> from a position within the string takes the given number of
  characters, or the rest when there are fewer or the count is \<open>npos\<close>.
\<close>

definition find_last_of :: "string \<Rightarrow> string \<Rightarrow> nat option" where
  "find_last_of s chars =
     (case filter (\<lambda>i. s ! i \<in> set chars) (rev [0..<length s]) of
        [] \<Rightarrow> None
      | i # rest \<Rightarrow> Some i)"

definition substr :: "string \<Rightarrow> nat \<Rightarrow> nat option \<Rightarrow> string" where
  "substr s pos n = (case n of None \<Rightarrow> drop pos s | Some k \<Rightarrow> take k (drop pos s))"

text \<open>The loop over the format table: every matching entry overwrites \<open>extension\<close>.\<close>

fun save_extension :: "string \<Rightarrow> aiExportFormatDesc list \<Rightarrow> string \<Rightarrow> string" where
  "save_extension fmt [] extension = extension"
| "save_extension fmt (pDesc # rest) extension =
     save_extension fmt rest
       (if fmt = desc_id pDesc then desc_fileExtension pDesc else extension)"

definition save_gltfOptions :: "'m Options \<Rightarrow> bool \<Rightarrow> GLTFExporterOptions" where
  "save_gltfOptions opts writeBinary =
     \<lparr> gltf_verbose = verbose opts,
       gltf_metallicFactor = metallicFactor opts,
       gltf_roughnessFactor = roughnessFactor opts,
       gltf_diffuseMapFile = diffuseMap opts,
       gltf_occlusionMapFile = occlusionMap opts,
       gltf_emissiveMapFile = emissiveMap opts,
       gltf_metallicRoughnessMapFile = metallicRoughnessMap opts,
       gltf_zoneMapFile = zoneMap opts,
       gltf_normalMapFile = normalMap opts,
       gltf_embedMaps = embedMaps opts,
       gltf_useCompression = useCompression opts,
       gltf_objectSpaceNormals = objectSpaceNormals opts,
       gltf_stripNormals = stripNormals opts,
       gltf_stripTexCoords = stripTexCoords opts,
       gltf_writeBinary = writeBinary,
       gltf_draco =
         \<lparr> draco_positionQuantizationBits = positionQuantizationBits opts,
           draco_texCoordsQuantizationBits = texCoordsQuantizationBits opts,
           draco_normalsQuantizationBits = normalsQuantizationBits opts,
           draco_genericQuantizationBits = genericQuantizationBits opts,
           draco_compressionLevel = compressionLevel opts \<rparr> \<rparr>"

text \<open>The result and the calls made to the exporters.\<close>

definition save ::
  "Assimp_flags \<Rightarrow> 's Exporters \<Rightarrow> 'm Options \<Rightarrow> 's \<Rightarrow> Result \<times> export_call list" where
  "save A X opts pScene =
     (let outputFilePath = (if outputPath opts = [] then input opts else outputPath opts);
          dotPos = find_last_of outputFilePath ''.'';
          baseFilePath = substr outputFilePath 0 dotPos
      in if format opts = ''gltfx'' \<or> format opts = ''glbx'' then
           (let writeBinary = (format opts = ''glbx'');
                gltfOptions = save_gltfOptions opts writeBinary;
                result = GLTFExporter_exportScene X gltfOptions pScene outputFilePath
            in (if isError result then result else Ok,
                [Call_exportScene gltfOptions outputFilePath]))
         else
           (let extension = save_extension (format opts) (exportFormats X) []
            in if extension = [] then
                 (Error (''invalid output format id: '' @ format opts), [])
               else
                 (let outputFilePath = baseFilePath @ ''.'' @ extension;
                      exportFlags =
                        (if joinVertices opts then 0 OR aiProcess_JoinIdenticalVertices A
                         else 0);
                      exported =
                        Exporter_Export X pScene (format opts) outputFilePath exportFlags
                  in (if fst exported \<noteq> aiReturn_SUCCESS then
                        Error (''failed to write output file: '' @ outputFilePath
                               @ '', reason: '' @ snd exported)
                      else Ok,
                      [Call_Export (format opts) outputFilePath exportFlags]))))"

subsection \<open>\<open>Scene::process\<close>\<close>

definition process ::
  "('s, 'm) Processor \<Rightarrow> 'm Flow \<Rightarrow> 'm Options \<Rightarrow> 's \<times> 'm Processor_call list
     \<Rightarrow> Result \<times> 's \<times> 'm Processor_call list" where
  "process P F opts st0 =
     (let st1 = (if swizzle opts \<noteq> [] then invoke P (Call_swizzle (swizzle opts)) st0
                 else st0);
          st2 = (if float_ne (scale opts) float_one then invoke P (Call_scale (scale opts)) st1
                 else st1);
          st3 = (if alignX opts \<noteq> Align_None \<or> alignY opts \<noteq> Align_None
                    \<or> alignZ opts \<noteq> Align_None
                 then invoke P (Call_align (alignX opts) (alignY opts) (alignZ opts)) st2
                 else st2);
          st4 = (if \<not> allZero F (translate opts)
                 then invoke P (Call_translate (translate opts)) st3
                 else st3);
          st5 = (if \<not> isIdentity F (matrix opts)
                 then invoke P (Call_transform (matrix opts)) st4
                 else st4);
          st6 = (if flipUV opts then invoke P (Call_flipUVs False True) st5 else st5)
      in (Ok, st6))"

subsection \<open>\<open>Scene::getJsonReport\<close>\<close>

text \<open>
  The block that renders a box is written twice in the source, for a mesh and for the
  scene; it takes the bounds, the size and the centre of the box whatever the box is.
\<close>

definition jsonVector :: "Vector3f \<Rightarrow> json" where
  "jsonVector v = JArray [JFloat (vec_x v), JFloat (vec_y v), JFloat (vec_z v)]"

definition jsonGeometry :: "'r Geometry \<Rightarrow> 'r \<Rightarrow> json" where
  "jsonGeometry G box =
     (let bbMin = Range3f_lowerBound G box;
          bbMax = Range3f_upperBound G box;
          size = Range3f_size G box;
          center = Range3f_center G box
      in JObject
           [(''boundingBox'',
               JObject [(''min'', jsonVector bbMin), (''max'', jsonVector bbMax)]),
            (''size'', jsonVector size),
            (''center'', jsonVector center)])"

definition jsonMeshStatistics :: "aiMesh \<Rightarrow> json" where
  "jsonMeshStatistics pMesh =
     JObject
       [(''numVertices'', JUnsigned (unat (mNumVertices pMesh))),
        (''numFaces'', JUnsigned (unat (mNumFaces pMesh))),
        (''hasNormals'', JBool (HasNormals pMesh)),
        (''hasTangentsAndBitangents'', JBool (HasTangentsAndBitangents pMesh)),
        (''hasBones'', JBool (HasBones pMesh)),
        (''hasTexCoords'', JBool (HasTextureCoords0 pMesh)),
        (''numTexCoordChannels'', JUnsigned (unat (GetNumUVChannels pMesh))),
        (''hasVertexColors'', JBool (HasVertexColors0 pMesh)),
        (''numColorChannels'', JUnsigned (unat (GetNumColorChannels pMesh)))]"

text \<open>The entry pushed to \<open>jsonMeshes\<close> for one mesh and its box.\<close>

definition jsonMesh :: "'r Geometry \<Rightarrow> aiMesh \<Rightarrow> 'r \<Rightarrow> json" where
  "jsonMesh G pMesh boundingBox =
     JObject [(''statistics'', jsonMeshStatistics pMesh),
              (''geometry'', jsonGeometry G boundingBox)]"

text \<open>
  The loop over the meshes, with its four accumulators; \<open>size_t\<close> is 64 bits wide, and
  \<open>+=\<close> on it wraps.
\<close>

record 'r report_acc =
  sceneNumVertices :: "64 word"
  sceneNumFaces :: "64 word"
  sceneBoundingBox :: 'r
  jsonMeshes :: "json list"

fun report_meshes :: "'r Geometry \<Rightarrow> aiMesh list \<Rightarrow> 'r report_acc \<Rightarrow> 'r report_acc" where
  "report_meshes G [] acc = acc"
| "report_meshes G (pMesh # rest) acc =
     (let boundingBox = Processor_calculateBoundingBox G pMesh
      in report_meshes G rest
           \<lparr> sceneNumVertices = sceneNumVertices acc + ucast (mNumVertices pMesh),
             sceneNumFaces = sceneNumFaces acc + ucast (mNumFaces pMesh),
             sceneBoundingBox = Range3f_uniteWith G (sceneBoundingBox acc) boundingBox,
             jsonMeshes = jsonMeshes acc @ [jsonMesh G pMesh boundingBox] \<rparr>)"

definition getJsonReport :: "'r Geometry \<Rightarrow> 'm Options \<Rightarrow> aiScene \<Rightarrow> json" where
  "getJsonReport G opts pScene =
     (let filePath = map (\<lambda>c. if c = CHR 0x5C then CHR ''/'' else c) (input opts);
          jsonReport = JObject [(''type'', JString ''report''), (''filePath'', JString filePath)];
          acc = report_meshes G (mMeshes pScene)
                  \<lparr> sceneNumVertices = 0, sceneNumFaces = 0,
                    sceneBoundingBox = Range3f_invalidate G (Range3f_new G),
                    jsonMeshes = [] \<rparr>;
          jsonReport = set_field ''meshes'' (JArray (jsonMeshes acc)) jsonReport;
          jsonSceneStatistics = JObject
            [(''numVertices'', JUnsigned (unat (sceneNumVertices acc))),
             (''numFaces'', JUnsigned (unat (sceneNumFaces acc))),
             (''numMeshes'', JUnsigned (unat (mNumMeshes pScene))),
             (''numMaterials'', JUnsigned (unat (mNumMaterials pScene))),
             (''numTextures'', JUnsigned (unat (mNumTextures pScene))),
             (''numLights'', JUnsigned (unat (mNumLights pScene))),
             (''numCameras'', JUnsigned (unat (mNumCameras pScene))),
             (''numAnimations'', JUnsigned (unat (mNumAnimations pScene)))];
          jsonSceneGeometry = jsonGeometry G (sceneBoundingBox acc)
      in set_field ''scene''
           (JObject [(''statistics'', jsonSceneStatistics), (''geometry'', jsonSceneGeometry)])
           jsonReport)"

section \<open>A validity check for swizzle specifications\<close>

text \<open>Modelled from the spec: the check of a swizzle specification belongs to
  \<open>Processor::swizzle\<close>, which is not part of the source file. The specification calls
  a swizzle string valid when it is a permutation-with-sign of three axes.
  \<open>valid_swizzle\<close> takes the widest reading of that: apart from the signs \<open>+\<close> and
  \<open>-\<close> the string consists of three axis letters, upper or lower case, that name each
  of X, Y and Z once.\<close>

definition axis_of :: "char \<Rightarrow> nat option" where
  "axis_of c =
     (if c = CHR ''X'' \<or> c = CHR ''x'' then Some 0
      else if c = CHR ''Y'' \<or> c = CHR ''y'' then Some 1
      else if c = CHR ''Z'' \<or> c = CHR ''z'' then Some 2
      else None)"

definition valid_swizzle :: "string \<Rightarrow> bool" where
  "valid_swizzle spec =
     (map axis_of (filter (\<lambda>c. c \<noteq> CHR ''+'' \<and> c \<noteq> CHR ''-'') spec)
        \<in> set [[Some 0, Some 1, Some 2], [Some 0, Some 2, Some 1],
                [Some 1, Some 0, Some 2], [Some 1, Some 2, Some 0],
                [Some 2, Some 0, Some 1], [Some 2, Some 1, Some 0]])"

section \<open>The bounding boxes of the specification\<close>

text \<open>Modelled from the spec: \<open>Range3f\<close> and \<open>Processor::calculateBoundingBox\<close> are not
  part of the source file. Section 4.1 of the specification gives the rules followed
  here. A range is a pair of a minimum and a maximum corner, or it is invalid. The box
  of a mesh folds over its vertex positions and is invalid for a mesh without vertices.
  The union takes the componentwise minimum of the minima and maximum of the maxima; the
  union with an invalid range is the other range, and the union of two invalid ranges
  is invalid. The size is the maximum minus the minimum and the centre is half their
  sum; on an invalid range both fail by returning the zero vector. The specification
  leaves open the float arithmetic, the corners that an invalid range shows and the
  value of a new range, so these are parameters.\<close>

record Range3_params =
  float_min :: "float32 \<Rightarrow> float32 \<Rightarrow> float32"
  float_max :: "float32 \<Rightarrow> float32 \<Rightarrow> float32"
  float_sub :: "float32 \<Rightarrow> float32 \<Rightarrow> float32"
  float_mid :: "float32 \<Rightarrow> float32 \<Rightarrow> float32"
  invalid_lower :: Vector3f
  invalid_upper :: Vector3f
  new_range_lower :: Vector3f
  new_range_upper :: Vector3f

datatype Range3 = Range3_invalid | Range3_valid Vector3f Vector3f

definition componentwise ::
  "(float32 \<Rightarrow> float32 \<Rightarrow> float32) \<Rightarrow> Vector3f \<Rightarrow> Vector3f \<Rightarrow> Vector3f" where
  "componentwise f a b =
     \<lparr> vec_x = f (vec_x a) (vec_x b), vec_y = f (vec_y a) (vec_y b),
       vec_z = f (vec_z a) (vec_z b) \<rparr>"

fun unionRange :: "Range3_params \<Rightarrow> Range3 \<Rightarrow> Range3 \<Rightarrow> Range3" where
  "unionRange N Range3_invalid b = b"
| "unionRange N (Range3_valid lo hi) Range3_invalid = Range3_valid lo hi"
| "unionRange N (Range3_valid lo hi) (Range3_valid lo' hi') =
     Range3_valid (componentwise (float_min N) lo lo') (componentwise (float_max N) hi hi')"

fun range_size :: "Range3_params \<Rightarrow> Range3 \<Rightarrow> Vector3f" where
  "range_size N Range3_invalid = \<lparr> vec_x = 0, vec_y = 0, vec_z = 0 \<rparr>"
| "range_size N (Range3_valid lo hi) = componentwise (float_sub N) hi lo"

fun range_center :: "Range3_params \<Rightarrow> Range3 \<Rightarrow> Vector3f" where
  "range_center N Range3_invalid = \<lparr> vec_x = 0, vec_y = 0, vec_z = 0 \<rparr>"
| "range_center N (Range3_valid lo hi) = componentwise (float_mid N) hi lo"

fun range_lower :: "Range3_params \<Rightarrow> Range3 \<Rightarrow> Vector3f" where
  "range_lower N Range3_invalid = invalid_lower N"
| "range_lower N (Range3_valid lo hi) = lo"

fun range_upper :: "Range3_params \<Rightarrow> Range3 \<Rightarrow> Vector3f" where
  "range_upper N Range3_invalid = invalid_upper N"
| "range_upper N (Range3_valid lo hi) = hi"

definition computeBoundingBox :: "Range3_params \<Rightarrow> aiMesh \<Rightarrow> Range3" where
  "computeBoundingBox N pMesh =
     foldl (\<lambda>r v. unionRange N r (Range3_valid v v)) Range3_invalid (mVertices pMesh)"

definition spec_geometry :: "Range3_params \<Rightarrow> Range3 Geometry" where
  "spec_geometry N =
     \<lparr> Range3f_new = Range3_valid (new_range_lower N) (new_range_upper N),
       Range3f_invalidate = (\<lambda>r. Range3_invalid),
       Range3f_uniteWith = unionRange N,
       Range3f_lowerBound = range_lower N,
       Range3f_upperBound = range_upper N,
       Range3f_size = range_size N,
       Range3f_center = range_center N,
       Processor_calculateBoundingBox = computeBoundingBox N \<rparr>"

section \<open>Concrete collaborators\<close>

text \<open>
  One configuration and one instance of every collaborator, at which the general
  theorems below are instantiated. \<open>assimp_flags\<close> holds the values that the headers
  of the import library give to the flag constants.
\<close>

definition zero_vector :: Vector3f where
  "zero_vector = \<lparr> vec_x = 0, vec_y = 0, vec_z = 0 \<rparr>"

definition identity_matrix :: "float32 list" where
  "identity_matrix =
     [float_one, 0, 0, 0,  0, float_one, 0, 0,  0, 0, float_one, 0,  0, 0, 0, float_one]"

definition example_flow :: "float32 list Flow" where
  "example_flow =
     \<lparr> allZero = (\<lambda>v. float_iszero (vec_x v) \<and> float_iszero (vec_y v) \<and> float_iszero (vec_z v)),
       isIdentity = (\<lambda>m. m = identity_matrix) \<rparr>"

definition example_options :: "float32 list Options" where
  "example_options =
     \<lparr> input = ''models/ship.v2.ply'', outputPath = [], format = ''obj'', verbose = False,
       swizzle = [], scale = float_one,
       alignX = Align_None, alignY = Align_None, alignZ = Align_None,
       translate = zero_vector, matrix = identity_matrix, flipUV = False,
       stripNormals = False, stripTexCoords = False, joinVertices = False,
       metallicFactor = 0, roughnessFactor = float_one,
       diffuseMap = [], occlusionMap = [], emissiveMap = [], metallicRoughnessMap = [],
       zoneMap = [], normalMap = [],
       embedMaps = False, useCompression = False, objectSpaceNormals = False,
       positionQuantizationBits = 14, texCoordsQuantizationBits = 12,
       normalsQuantizationBits = 10, genericQuantizationBits = 8,
       compressionLevel = 7 \<rparr>"

definition example_processor :: "(string list, float32 list) Processor" where
  "example_processor =
     \<lparr> Processor_swizzle = (\<lambda>s order. s @ [''swizzle'']),
       Processor_scale = (\<lambda>s factor. s @ [''scale'']),
       Processor_align = (\<lambda>s ax ay az. s @ [''align'']),
       Processor_translate = (\<lambda>s v. s @ [''translate'']),
       Processor_transform = (\<lambda>s m. s @ [''transform'']),
       Processor_flipUVs = (\<lambda>s u v. s @ [''flipUVs'']) \<rparr>"

text \<open>
  A processor that keeps a journal: the scene is the list of the operations applied to
  it, each with the arguments it was given.
\<close>

definition recording_processor ::
  "(float32 list Processor_call list, float32 list) Processor" where
  "recording_processor =
     \<lparr> Processor_swizzle = (\<lambda>s order. s @ [Call_swizzle order]),
       Processor_scale = (\<lambda>s factor. s @ [Call_scale factor]),
       Processor_align = (\<lambda>s ax ay az. s @ [Call_align ax ay az]),
       Processor_translate = (\<lambda>s v. s @ [Call_translate v]),
       Processor_transform = (\<lambda>s m. s @ [Call_transform m]),
       Processor_flipUVs = (\<lambda>s u v. s @ [Call_flipUVs u v]) \<rparr>"

text \<open>The translation by (1, 0, -0) and the matrix that doubles every coordinate.\<close>

definition unit_x_vector :: Vector3f where
  "unit_x_vector = \<lparr> vec_x = 0x3F800000, vec_y = 0, vec_z = 0x80000000 \<rparr>"

definition doubling_matrix :: "float32 list" where
  "doubling_matrix =
     [0x40000000, 0, 0, 0,  0, 0x40000000, 0, 0,  0, 0, 0x40000000, 0,  0, 0, 0, float_one]"

definition assimp_flags :: Assimp_flags where
  "assimp_flags =
     \<lparr> aiComponent_MATERIALS = 0x800, aiComponent_TEXTURES = 0x80,
       aiComponent_LIGHTS = 0x100, aiComponent_CAMERAS = 0x200,
       aiComponent_ANIMATIONS = 0x40, aiComponent_BONEWEIGHTS = 0x20,
       aiComponent_COLORS = 0x8, aiComponent_NORMALS = 0x2,
       aiComponent_TANGENTS_AND_BITANGENTS = 0x4, aiComponent_TEXCOORDS = 0x10,
       aiProcess_RemoveComponent = 0x10, aiProcess_JoinIdenticalVertices = 0x2,
       aiProcess_Triangulate = 0x8 \<rparr>"

definition example_importer :: "string list Importer" where
  "example_importer =
     \<lparr> ReadFile = (\<lambda>removeFlags path processFlags.
         if path = [] then Inl ''no such file'' else Inr [path]) \<rparr>"

definition example_exporters :: "string list Exporters" where
  "example_exporters =
     \<lparr> GLTFExporter_exportScene = (\<lambda>g pScene path. Error ''cannot write''),
       Exporter_Export = (\<lambda>pScene fmt path flags. (aiReturn_SUCCESS, [])),
       exportFormats =
         [\<lparr> desc_id = ''collada'', desc_description = ''COLLADA'', desc_fileExtension = ''dae'' \<rparr>,
          \<lparr> desc_id = ''obj'', desc_description = ''Wavefront OBJ'', desc_fileExtension = ''obj'' \<rparr>,
          \<lparr> desc_id = ''stl'', desc_description = ''Stereolithography'', desc_fileExtension = ''stl'' \<rparr>] \<rparr>"

text \<open>
  A stand-in for the vector library, in which the four observers of a box are told
  apart: a box is the list of the positions united so far; its bounds are the first and
  the last position, its size the second and its centre the last but one (the zero
  vector where the list is too short). The components of the positions below are bit
  patterns chosen to differ.
\<close>

definition example_geometry :: "Vector3f list Geometry" where
  "example_geometry =
     \<lparr> Range3f_new = [zero_vector],
       Range3f_invalidate = (\<lambda>r. []),
       Range3f_uniteWith = (\<lambda>r other. r @ other),
       Range3f_lowerBound = (\<lambda>r. case r of [] \<Rightarrow> zero_vector | v # vs \<Rightarrow> v),
       Range3f_upperBound = (\<lambda>r. case rev r of [] \<Rightarrow> zero_vector | v # vs \<Rightarrow> v),
       Range3f_size = (\<lambda>r. case r of v # w # vs \<Rightarrow> w | vs \<Rightarrow> zero_vector),
       Range3f_center = (\<lambda>r. case rev r of v # w # vs \<Rightarrow> w | vs \<Rightarrow> zero_vector),
       Processor_calculateBoundingBox = (\<lambda>pMesh. mVertices pMesh) \<rparr>"

definition position :: "float32 \<Rightarrow> float32 \<Rightarrow> float32 \<Rightarrow> Vector3f" where
  "position a b c = \<lparr> vec_x = a, vec_y = b, vec_z = c \<rparr>"

definition example_mesh :: "Vector3f list \<Rightarrow> 32 word \<Rightarrow> bool \<Rightarrow> aiMesh" where
  "example_mesh positions numFaces normals =
     \<lparr> mVertices = positions,
       mNumVertices = of_nat (length positions), mNumFaces = numFaces,
       HasNormals = normals, HasTangentsAndBitangents = False, HasBones = False,
       HasTextureCoords0 = True, GetNumUVChannels = 2,
       HasVertexColors0 = False, GetNumColorChannels = 0 \<rparr>"

definition example_scene :: aiScene where
  "example_scene =
     \<lparr> mMeshes =
         [example_mesh
            [position 11 12 13, position 14 15 16, position 17 18 19, position 20 21 22]
            2 False,
          example_mesh
            [position 31 32 33, position 34 35 36, position 37 38 39, position 40 41 42,
             position 43 44 45]
            3 True],
       mNumMaterials = 0, mNumTextures = 0, mNumLights = 0, mNumCameras = 0,
       mNumAnimations = 0 \<rparr>"

text \<open>
  Parameters for the boxes of the specification: an invalid range shows the largest
  finite float as its minimum and the smallest as its maximum, a new range is the point
  at the origin, and the arithmetic answers NaN throughout (the instances below never
  reach it).
\<close>

definition example_range_params :: Range3_params where
  "example_range_params =
     \<lparr> float_min = (\<lambda>a b. 0x7FC00000), float_max = (\<lambda>a b. 0x7FC00000),
       float_sub = (\<lambda>a b. 0x7FC00000), float_mid = (\<lambda>a b. 0x7FC00000),
       invalid_lower = position 0x7F7FFFFF 0x7F7FFFFF 0x7F7FFFFF,
       invalid_upper = position 0xFF7FFFFF 0xFF7FFFFF 0xFF7FFFFF,
       new_range_lower = zero_vector, new_range_upper = zero_vector \<rparr>"

section \<open>Properties\<close>

subsection \<open>Status documents\<close>

text \<open>
  C8. For every message, the status document has the kind tag \<open>status\<close>; when the
  message is non-empty its status is \<open>error\<close> and its \<open>error\<close> field is the message;
  when the message is empty its status is \<open>ok\<close> and it has no \<open>error\<close> field.
\<close>

theorem getJsonStatus_document:
  "field ''type'' (getJsonStatus m) = Some (JString ''status'') \<and>
   field ''status'' (getJsonStatus m) = Some (JString (if m \<noteq> [] then ''error'' else ''ok'')) \<and>
   field ''error'' (getJsonStatus m) = (if m \<noteq> [] then Some (JString m) else None) \<and>
   keys (getJsonStatus m) =
     (if m \<noteq> [] then [''type'', ''status'', ''error''] else [''type'', ''status''])"
  by (simp add: getJsonStatus_def)

theorem getJsonStatus_document_witness:
  "field ''status'' (getJsonStatus ''failed to read input file: a.obj, reason: none'')
     = Some (JString ''error'') \<and>
   field ''error'' (getJsonStatus ''failed to read input file: a.obj, reason: none'')
     = Some (JString ''failed to read input file: a.obj, reason: none'') \<and>
   field ''status'' (getJsonStatus []) = Some (JString ''ok'') \<and>
   field ''error'' (getJsonStatus []) = None"
  using getJsonStatus_document [of "''failed to read input file: a.obj, reason: none''"]
    getJsonStatus_document [of "[]"]
  by simp


subsection \<open>Import requests\<close>

lemma requested_self: "requested f f"
  by (simp add: requested_def)

lemma requested_or1: "requested a f \<Longrightarrow> requested (a OR b) f"
  by (auto simp add: requested_def bit_eq_iff bit_and_iff bit_or_iff)

lemma requested_or2: "requested b f \<Longrightarrow> requested (a OR b) f"
  by (auto simp add: requested_def bit_eq_iff bit_and_iff bit_or_iff)

lemma and_or_zero: "(a OR b) AND f = 0 \<longleftrightarrow> a AND f = 0 \<and> b AND f = (0 :: 32 word)"
  by (auto simp add: bit_eq_iff bit_and_iff bit_or_iff)

lemma not_requested: "flags AND f = 0 \<Longrightarrow> f \<noteq> 0 \<Longrightarrow> \<not> requested flags f"
  by (auto simp add: requested_def)

lemma load_calls:
  "snd (snd (load A I opts)) =
     [Call_ReadFile (load_removeFlags A opts) (input opts)
        (aiProcess_RemoveComponent A OR aiProcess_JoinIdenticalVertices A
           OR aiProcess_Triangulate A)]"
  by (simp add: load_def Let_def split: sum.splits)

lemma load_removeFlags_always:
  "requested (load_removeFlags A opts) (aiComponent_MATERIALS A)"
  "requested (load_removeFlags A opts) (aiComponent_TEXTURES A)"
  "requested (load_removeFlags A opts) (aiComponent_LIGHTS A)"
  "requested (load_removeFlags A opts) (aiComponent_CAMERAS A)"
  "requested (load_removeFlags A opts) (aiComponent_ANIMATIONS A)"
  "requested (load_removeFlags A opts) (aiComponent_BONEWEIGHTS A)"
  "requested (load_removeFlags A opts) (aiComponent_COLORS A)"
  by (simp_all add: load_removeFlags_def Let_def requested_self requested_or1 requested_or2)

lemma load_removeFlags_strip:
  "stripNormals opts \<Longrightarrow> requested (load_removeFlags A opts) (aiComponent_NORMALS A)"
  "stripNormals opts \<Longrightarrow> requested (load_removeFlags A opts) (aiComponent_TANGENTS_AND_BITANGENTS A)"
  "stripTexCoords opts \<Longrightarrow> requested (load_removeFlags A opts) (aiComponent_TEXCOORDS A)"
  by (simp_all add: load_removeFlags_def Let_def requested_self requested_or1 requested_or2)

lemma load_removeFlags_keep:
  assumes "independent_flags (component_flags A)"
  shows "\<not> stripNormals opts \<Longrightarrow> \<not> requested (load_removeFlags A opts) (aiComponent_NORMALS A)"
    and "\<not> stripNormals opts \<Longrightarrow>
         \<not> requested (load_removeFlags A opts) (aiComponent_TANGENTS_AND_BITANGENTS A)"
    and "\<not> stripTexCoords opts \<Longrightarrow> \<not> requested (load_removeFlags A opts) (aiComponent_TEXCOORDS A)"
proof -
  have ind: "independent_flags
     [aiComponent_MATERIALS A, aiComponent_TEXTURES A, aiComponent_LIGHTS A,
      aiComponent_CAMERAS A, aiComponent_ANIMATIONS A, aiComponent_BONEWEIGHTS A,
      aiComponent_COLORS A, aiComponent_NORMALS A,
      aiComponent_TANGENTS_AND_BITANGENTS A, aiComponent_TEXCOORDS A]"
    using assms by (simp only: component_flags_def)
  have c1: "aiComponent_TEXCOORDS A AND aiComponent_NORMALS A = 0"
    using ind by (subst and.commute) simp
  have c2: "aiComponent_TEXCOORDS A AND aiComponent_TANGENTS_AND_BITANGENTS A = 0"
    using ind by (subst and.commute) simp
  show "\<not> stripNormals opts \<Longrightarrow> \<not> requested (load_removeFlags A opts) (aiComponent_NORMALS A)"
    using ind c1
    by (intro not_requested) (simp_all add: load_removeFlags_def Let_def and_or_zero)
  show "\<not> stripNormals opts \<Longrightarrow>
         \<not> requested (load_removeFlags A opts) (aiComponent_TANGENTS_AND_BITANGENTS A)"
    using ind c2
    by (intro not_requested) (simp_all add: load_removeFlags_def Let_def and_or_zero)
  show "\<not> stripTexCoords opts \<Longrightarrow> \<not> requested (load_removeFlags A opts) (aiComponent_TEXCOORDS A)"
    using ind
    by (intro not_requested) (simp_all add: load_removeFlags_def Let_def and_or_zero)
qed

text \<open>
  C10. Whatever the configuration, \<open>Scene::load\<close> makes one import call, for the input
  path; its removal flags request materials, textures, lights, cameras, animations,
  bone weights and vertex colours; they request normals and tangents/bitangents exactly
  when \<open>stripNormals\<close> is set and texture coordinates exactly when \<open>stripTexCoords\<close>
  is set; its process flags are component removal, identical-vertex joining and
  triangulation. The flags of the library are taken to be independent groups of bits.
\<close>

theorem load_requests:
  assumes "independent_flags (component_flags A)"
  shows "\<exists>removeFlags processFlags.
     snd (snd (load A I opts)) = [Call_ReadFile removeFlags (input opts) processFlags] \<and>
     requested removeFlags (aiComponent_MATERIALS A) \<and>
     requested removeFlags (aiComponent_TEXTURES A) \<and>
     requested removeFlags (aiComponent_LIGHTS A) \<and>
     requested removeFlags (aiComponent_CAMERAS A) \<and>
     requested removeFlags (aiComponent_ANIMATIONS A) \<and>
     requested removeFlags (aiComponent_BONEWEIGHTS A) \<and>
     requested removeFlags (aiComponent_COLORS A) \<and>
     (requested removeFlags (aiComponent_NORMALS A) \<longleftrightarrow> stripNormals opts) \<and>
     (requested removeFlags (aiComponent_TANGENTS_AND_BITANGENTS A) \<longleftrightarrow> stripNormals opts) \<and>
     (requested removeFlags (aiComponent_TEXCOORDS A) \<longleftrightarrow> stripTexCoords opts) \<and>
     processFlags =
       aiProcess_RemoveComponent A OR aiProcess_JoinIdenticalVertices A
         OR aiProcess_Triangulate A"
proof (intro exI conjI)
  show "snd (snd (load A I opts)) =
     [Call_ReadFile (load_removeFlags A opts) (input opts)
        (aiProcess_RemoveComponent A OR aiProcess_JoinIdenticalVertices A
           OR aiProcess_Triangulate A)]"
    by (rule load_calls)
  show "requested (load_removeFlags A opts) (aiComponent_NORMALS A) \<longleftrightarrow> stripNormals opts"
    using load_removeFlags_strip(1) load_removeFlags_keep(1) [OF assms] by blast
  show "requested (load_removeFlags A opts) (aiComponent_TANGENTS_AND_BITANGENTS A)
          \<longleftrightarrow> stripNormals opts"
    using load_removeFlags_strip(2) load_removeFlags_keep(2) [OF assms] by blast
  show "requested (load_removeFlags A opts) (aiComponent_TEXCOORDS A) \<longleftrightarrow> stripTexCoords opts"
    using load_removeFlags_strip(3) load_removeFlags_keep(3) [OF assms] by blast
qed (simp_all only: load_removeFlags_always)

theorem load_requests_witness:
  "independent_flags (component_flags assimp_flags) \<and>
   (\<exists>removeFlags processFlags.
     snd (snd (load assimp_flags example_importer (example_options \<lparr> stripNormals := True \<rparr>)))
       = [Call_ReadFile removeFlags ''models/ship.v2.ply'' processFlags] \<and>
     requested removeFlags 0x800 \<and> requested removeFlags 2 \<and> requested removeFlags 4 \<and>
     \<not> requested removeFlags 0x10 \<and> processFlags = 0x1A)"
proof -
  let ?opts = "example_options \<lparr> stripNormals := True \<rparr>"
  have ind: "independent_flags (component_flags assimp_flags)"
    by (simp add: component_flags_def assimp_flags_def)
  from load_requests [OF ind, of example_importer ?opts]
  have "\<exists>removeFlags processFlags.
     snd (snd (load assimp_flags example_importer ?opts))
       = [Call_ReadFile removeFlags ''models/ship.v2.ply'' processFlags] \<and>
     requested removeFlags 0x800 \<and> requested removeFlags 2 \<and> requested removeFlags 4 \<and>
     \<not> requested removeFlags 0x10 \<and> processFlags = 0x1A"
    by (auto simp add: assimp_flags_def example_options_def)
  with ind show ?thesis by (rule conjI)
qed

subsection \<open>Export\<close>

lemma save_extension_no_match:
  "fmt \<notin> desc_id ` set ds \<Longrightarrow> save_extension fmt ds e = e"
  by (induction ds arbitrary: e) auto

lemma save_extension_last_match:
  "desc_id d = fmt \<Longrightarrow> fmt \<notin> desc_id ` set after \<Longrightarrow>
   save_extension fmt (before @ d # after) e = desc_fileExtension d"
  by (induction before arbitrary: e) (auto simp: save_extension_no_match)

lemma find_last_of_none:
  assumes "set s \<inter> set chars = {}"
  shows "find_last_of s chars = None"
proof -
  have "\<forall>i \<in> set (rev [0..<length s]). \<not> s ! i \<in> set chars"
    using assms nth_mem by fastforce
  then have "filter (\<lambda>i. s ! i \<in> set chars) (rev [0..<length s]) = []"
    by (simp only: filter_empty_conv) 
  then show ?thesis by (simp add: find_last_of_def)
qed

lemma find_last_of_some:
  assumes "c \<in> set chars" "set b \<inter> set chars = {}"
  shows "find_last_of (a @ c # b) chars = Some (length a)"
proof -
  let ?s = "a @ c # b"
  have len: "length ?s = length a + Suc (length b)" by simp
  have "[0..<length a + Suc (length b)] = [0..<length a] @ [length a..<length a + Suc (length b)]"
    by (rule upt_add_eq_append) simp
  moreover have "[length a..<length a + Suc (length b)]
        = length a # [Suc (length a)..<length a + Suc (length b)]"
    by (rule upt_conv_Cons) simp
  ultimately have split:
    "[0..<length ?s] = [0..<length a] @ length a # [Suc (length a)..<length a + Suc (length b)]"
    by (simp only: len)
  have "\<forall>i \<in> set [Suc (length a)..<length a + Suc (length b)]. \<not> ?s ! i \<in> set chars"
  proof
    fix i assume "i \<in> set [Suc (length a)..<length a + Suc (length b)]"
    then have i: "Suc (length a) \<le> i" "i < length a + Suc (length b)" by auto
    then have "?s ! i = b ! (i - Suc (length a))"
      by (simp add: nth_append nth_Cons')
    moreover have "i - Suc (length a) < length b" using i by arith
    ultimately have "?s ! i \<in> set b" by simp
    then show "\<not> ?s ! i \<in> set chars" using assms(2) by blast
  qed
  then have tail: "filter (\<lambda>i. ?s ! i \<in> set chars) (rev [Suc (length a)..<length a + Suc (length b)]) = []"
    by (simp only: filter_empty_conv set_rev)
  have "rev [0..<length ?s]
        = rev [Suc (length a)..<length a + Suc (length b)] @ length a # rev [0..<length a]"
    by (simp only: split rev_append rev.simps append_assoc append.simps)
  then have "filter (\<lambda>i. ?s ! i \<in> set chars) (rev [0..<length ?s])
        = length a # filter (\<lambda>i. ?s ! i \<in> set chars) (rev [0..<length a])"
    using tail assms(1) by (simp only: filter_append filter.simps nth_append_length append.simps if_True)
  then show ?thesis by (simp only: find_last_of_def list.case)
qed

lemma base_with_dot:
  "CHR ''.'' \<notin> set b \<Longrightarrow> substr (a @ ''.'' @ b) 0 (find_last_of (a @ ''.'' @ b) ''.'') = a"
  using find_last_of_some [of "CHR ''.''" "''.''" b a] by (simp add: substr_def)

lemma base_without_dot:
  "CHR ''.'' \<notin> set p \<Longrightarrow> substr p 0 (find_last_of p ''.'') = p"
  using find_last_of_none [of p "''.''"] by (simp add: substr_def)

lemma isError_keep: "(if isError r then r else Ok) = r"
  by (cases r) simp_all

text \<open>
  C2. When the format identifier is neither \<open>gltfx\<close> nor \<open>glbx\<close> and is the id of no
  entry of the format table, \<open>Scene::save\<close> returns the error
  \<open>invalid output format id: \<close> followed by the identifier, and calls no exporter.
\<close>

theorem save_invalid_format:
  assumes "format opts \<noteq> ''gltfx''" and "format opts \<noteq> ''glbx''"
    and "format opts \<notin> desc_id ` set (exportFormats X)"
  shows "save A X opts pScene = (Error (''invalid output format id: '' @ format opts), [])"
  using assms by (simp add: save_def Let_def save_extension_no_match)


theorem save_invalid_format_witness:
  "format (example_options \<lparr> format := ''fbx'' \<rparr>) \<noteq> ''gltfx'' \<and>
   format (example_options \<lparr> format := ''fbx'' \<rparr>) \<noteq> ''glbx'' \<and>
   format (example_options \<lparr> format := ''fbx'' \<rparr>) \<notin> desc_id ` set (exportFormats example_exporters) \<and>
   save assimp_flags example_exporters (example_options \<lparr> format := ''fbx'' \<rparr>) []
     = (Error ''invalid output format id: fbx'', [])"
proof -
  let ?opts = "example_options \<lparr> format := ''fbx'' \<rparr>"
  have f: "format ?opts = ''fbx''" by (simp add: example_options_def)
  have 1: "format ?opts \<noteq> ''gltfx''" and 2: "format ?opts \<noteq> ''glbx''"
    by (simp_all add: f)
  have 3: "format ?opts \<notin> desc_id ` set (exportFormats example_exporters)"
    by (simp add: f example_exporters_def)
  have "save assimp_flags example_exporters ?opts []
      = (Error (''invalid output format id: '' @ format ?opts), [])"
    by (rule save_invalid_format [OF 1 2 3])
  then have "save assimp_flags example_exporters ?opts []
      = (Error ''invalid output format id: fbx'', [])"
    by (simp only: f append.simps)
  with 1 2 3 show ?thesis by (intro conjI)
qed

text \<open>
  C3. The format identifier alone selects the export path. For \<open>gltfx\<close> and \<open>glbx\<close>
  the only call is one to the glTF exporter, with binary output exactly for \<open>glbx\<close>,
  and the result of \<open>Scene::save\<close> is the result of that call, also when it is an
  error. For every other identifier the glTF exporter is not called: either no exporter
  is called and the result is an error, or the only call is one to the generic
  exporter with that identifier.
\<close>

theorem save_dispatch:
  "(format opts = ''gltfx'' \<or> format opts = ''glbx'' \<longrightarrow>
      (\<exists>g p. snd (save A X opts pScene) = [Call_exportScene g p] \<and>
             gltf_writeBinary g = (format opts = ''glbx'') \<and>
             fst (save A X opts pScene) = GLTFExporter_exportScene X g pScene p)) \<and>
   (format opts \<noteq> ''gltfx'' \<and> format opts \<noteq> ''glbx'' \<longrightarrow>
      (snd (save A X opts pScene) = [] \<and> isError (fst (save A X opts pScene))) \<or>
      (\<exists>p e. snd (save A X opts pScene) = [Call_Export (format opts) p e]))"
  by (simp add: save_def Let_def save_gltfOptions_def isError_keep)


theorem save_dispatch_witness:
  "(\<exists>g p. snd (save assimp_flags example_exporters (example_options \<lparr> format := ''glbx'' \<rparr>) [])
            = [Call_exportScene g p] \<and>
          gltf_writeBinary g = True \<and>
          fst (save assimp_flags example_exporters (example_options \<lparr> format := ''glbx'' \<rparr>) [])
            = GLTFExporter_exportScene example_exporters g [] p) \<and>
   fst (save assimp_flags example_exporters (example_options \<lparr> format := ''glbx'' \<rparr>) [])
     = Error ''cannot write'' \<and>
   (\<exists>p e. snd (save assimp_flags example_exporters (example_options \<lparr> format := ''stl'' \<rparr>) [])
            = [Call_Export ''stl'' p e])"
proof -
  let ?opts = "example_options \<lparr> format := ''glbx'' \<rparr>"
  let ?stl = "example_options \<lparr> format := ''stl'' \<rparr>"
  have f: "format ?opts = ''glbx''" by (simp add: example_options_def)
  have "\<exists>g p. snd (save assimp_flags example_exporters ?opts []) = [Call_exportScene g p] \<and>
          gltf_writeBinary g = (format ?opts = ''glbx'') \<and>
          fst (save assimp_flags example_exporters ?opts [])
            = GLTFExporter_exportScene example_exporters g [] p"
    using save_dispatch [of ?opts assimp_flags example_exporters "[]"] f by blast
  then have inst: "\<exists>g p. snd (save assimp_flags example_exporters ?opts []) = [Call_exportScene g p] \<and>
          gltf_writeBinary g = True \<and>
          fst (save assimp_flags example_exporters ?opts [])
            = GLTFExporter_exportScene example_exporters g [] p"
    by (simp only: f simp_thms)
  then have err: "fst (save assimp_flags example_exporters ?opts []) = Error ''cannot write''"
    by (auto simp add: example_exporters_def)
  have g: "format ?stl = ''stl''" by (simp add: example_options_def)
  have g1: "format ?stl \<noteq> ''gltfx''" and g2: "format ?stl \<noteq> ''glbx''"
    by (simp_all add: g)
  have called: "snd (save assimp_flags example_exporters ?stl []) \<noteq> []"
    using g1 g2 by (simp add: save_def Let_def g example_exporters_def)
  have "\<exists>p e. snd (save assimp_flags example_exporters ?stl []) = [Call_Export (format ?stl) p e]"
    using save_dispatch [of ?stl assimp_flags example_exporters "[]"] g1 g2 called by blast
  then have gen: "\<exists>p e. snd (save assimp_flags example_exporters ?stl []) = [Call_Export ''stl'' p e]"
    by (simp only: g)
  from inst err gen show ?thesis by (intro conjI)
qed

text \<open>
  C4. On the generic path, when the last table entry whose id is the format identifier
  has a non-empty extension, the generic exporter is called once, and the path it gets
  is built from the chosen path (the explicit output path if non-empty, else the input
  path): if the chosen path has a dot, everything from its last dot on is replaced by a
  dot and the extension of the entry; if it has none, a dot and the extension are
  appended. This holds for an explicit output path as for the input path.
\<close>

theorem save_generic_output_path:
  assumes "format opts \<noteq> ''gltfx''" and "format opts \<noteq> ''glbx''"
    and "exportFormats X = before @ d # after"
    and "desc_id d = format opts"
    and "format opts \<notin> desc_id ` set after"
    and "desc_fileExtension d \<noteq> []"
  shows "\<exists>p e. snd (save A X opts pScene) = [Call_Export (format opts) p e] \<and>
     (\<forall>a b. (if outputPath opts = [] then input opts else outputPath opts) = a @ ''.'' @ b
            \<and> CHR ''.'' \<notin> set b
        \<longrightarrow> p = a @ ''.'' @ desc_fileExtension d) \<and>
     (CHR ''.'' \<notin> set (if outputPath opts = [] then input opts else outputPath opts)
        \<longrightarrow> p = (if outputPath opts = [] then input opts else outputPath opts)
                 @ ''.'' @ desc_fileExtension d)"
proof -
  define chosen where "chosen = (if outputPath opts = [] then input opts else outputPath opts)"
  define base where "base = substr chosen 0 (find_last_of chosen ''.'')"
  define flags where
    "flags = (if joinVertices opts then 0 OR aiProcess_JoinIdenticalVertices A else 0)"
  have ext: "save_extension (format opts) (exportFormats X) [] = desc_fileExtension d"
    using assms(3-5) by (simp add: save_extension_last_match)
  have calls: "snd (save A X opts pScene)
      = [Call_Export (format opts) (base @ ''.'' @ desc_fileExtension d) flags]"
    using assms(1,2,6) ext by (simp add: save_def Let_def base_def chosen_def flags_def)
  have dot: "base = a" if "chosen = a @ ''.'' @ b" and "CHR ''.'' \<notin> set b" for a b
    unfolding base_def that(1) using that(2) by (rule base_with_dot)
  have nodot: "base = chosen" if "CHR ''.'' \<notin> set chosen"
    unfolding base_def using that by (rule base_without_dot)
  show ?thesis
    unfolding chosen_def [symmetric]
  proof (intro exI conjI allI impI)
    show "snd (save A X opts pScene)
      = [Call_Export (format opts) (base @ ''.'' @ desc_fileExtension d) flags]"
      by (rule calls)
  next
    fix a b assume "chosen = a @ ''.'' @ b \<and> CHR ''.'' \<notin> set b"
    then have "base = a" using dot by blast
    then show "base @ ''.'' @ desc_fileExtension d = a @ ''.'' @ desc_fileExtension d"
      by (simp only:)
  next
    assume "CHR ''.'' \<notin> set chosen"
    then have "base = chosen" by (rule nodot)
    then show "base @ ''.'' @ desc_fileExtension d = chosen @ ''.'' @ desc_fileExtension d"
      by (simp only:)
  qed
qed


theorem save_generic_output_path_witness:
  "\<exists>e. snd (save assimp_flags example_exporters
      (example_options \<lparr> outputPath := ''out/result.final.bin'' \<rparr>) [])
     = [Call_Export ''obj'' ''out/result.final.obj'' e]"
proof -
  let ?opts = "example_options \<lparr> outputPath := ''out/result.final.bin'' \<rparr>"
  let ?obj = "\<lparr> desc_id = ''obj'', desc_description = ''Wavefront OBJ'', desc_fileExtension = ''obj'' \<rparr>"
  have f: "format ?opts = ''obj''" by (simp add: example_options_def)
  have 1: "format ?opts \<noteq> ''gltfx''" and 2: "format ?opts \<noteq> ''glbx''"
    by (simp_all add: f)
  have 3: "exportFormats example_exporters =
      [\<lparr> desc_id = ''collada'', desc_description = ''COLLADA'', desc_fileExtension = ''dae'' \<rparr>]
      @ ?obj
      # [\<lparr> desc_id = ''stl'', desc_description = ''Stereolithography'', desc_fileExtension = ''stl'' \<rparr>]"
    by (simp add: example_exporters_def)
  have 4: "desc_id ?obj = format ?opts"
    by (simp add: f)
  have 5: "format ?opts \<notin> desc_id ` set [\<lparr> desc_id = ''stl'', desc_description = ''Stereolithography'', desc_fileExtension = ''stl'' \<rparr>]"
    by (simp add: f)
  have 6: "desc_fileExtension ?obj \<noteq> []"
    by simp
  have chosen: "(if outputPath ?opts = [] then input ?opts else outputPath ?opts)
      = ''out/result.final'' @ ''.'' @ ''bin''"
    by (simp add: example_options_def)
  have nodot: "CHR ''.'' \<notin> set ''bin''" by simp
  from save_generic_output_path [OF 1 2 3 4 5 6, of assimp_flags "[]"]
  obtain p e where pe: "snd (save assimp_flags example_exporters ?opts []) = [Call_Export (format ?opts) p e]"
    and dot: "\<forall>a b. (if outputPath ?opts = [] then input ?opts else outputPath ?opts) = a @ ''.'' @ b
            \<and> CHR ''.'' \<notin> set b \<longrightarrow> p = a @ ''.'' @ desc_fileExtension ?obj"
    by blast
  from dot chosen nodot have "p = ''out/result.final'' @ ''.'' @ desc_fileExtension ?obj"
    by blast
  then have p: "p = ''out/result.final.obj''" by simp
  from pe show ?thesis unfolding p f by (rule exI)
qed

text \<open>
  C9. For \<open>gltfx\<close> and \<open>glbx\<close> the path given to the glTF exporter is the chosen
  path itself (the explicit output path if non-empty, else the input path), with no
  change of extension.
\<close>

theorem save_specialized_path:
  assumes "format opts = ''gltfx'' \<or> format opts = ''glbx''"
  shows "\<exists>g. snd (save A X opts pScene)
     = [Call_exportScene g (if outputPath opts = [] then input opts else outputPath opts)]"
  using assms by (auto simp add: save_def Let_def)


theorem save_specialized_path_witness:
  "\<exists>g. snd (save assimp_flags example_exporters
      (example_options \<lparr> format := ''gltfx'', outputPath := ''out/ship.bin'' \<rparr>) [])
     = [Call_exportScene g ''out/ship.bin'']"
proof -
  let ?opts = "example_options \<lparr> format := ''gltfx'', outputPath := ''out/ship.bin'' \<rparr>"
  have f: "format ?opts = ''gltfx'' \<or> format ?opts = ''glbx''"
    by (simp add: example_options_def)
  have o: "(if outputPath ?opts = [] then input ?opts else outputPath ?opts) = ''out/ship.bin''"
    by (simp add: example_options_def)
  from save_specialized_path [OF f, of assimp_flags example_exporters "[]"]
  show ?thesis unfolding o .
qed

subsection \<open>The transform pipeline\<close>

text \<open>The test \<open>scale != 1.0f\<close> fails for one bit pattern only.\<close>

lemma float_ne_one: "float_ne w float_one \<longleftrightarrow> w \<noteq> 0x3F800000"
  by (auto simp add: float_ne_def float_eq_def float_one_def float_isnan_def float_iszero_def)

lemma snd_invoke: "snd (invoke P c st) = snd st @ [c]"
  by (simp add: invoke_def)

lemma fst_invoke: "fst (invoke P c st) = perform P (fst st) c"
  by (simp add: invoke_def)

lemma process_calls:
  "snd (snd (process P F opts (s, []))) =
     (if swizzle opts \<noteq> [] then [Call_swizzle (swizzle opts)] else []) @
     (if float_ne (scale opts) float_one then [Call_scale (scale opts)] else []) @
     (if alignX opts \<noteq> Align_None \<or> alignY opts \<noteq> Align_None \<or> alignZ opts \<noteq> Align_None
      then [Call_align (alignX opts) (alignY opts) (alignZ opts)] else []) @
     (if \<not> allZero F (translate opts) then [Call_translate (translate opts)] else []) @
     (if \<not> isIdentity F (matrix opts) then [Call_transform (matrix opts)] else []) @
     (if flipUV opts then [Call_flipUVs False True] else [])"
  by (simp add: process_def Let_def snd_invoke)

lemma process_scene:
  "fst (snd (process P F opts (s, cs))) =
     foldl (perform P) s (drop (length cs) (snd (snd (process P F opts (s, cs)))))"
  by (simp add: process_def Let_def snd_invoke fst_invoke)

lemma process_result_scene:
  "fst (snd (process P F opts (s, []))) =
     (let s1 = (if swizzle opts \<noteq> [] then Processor_swizzle P s (swizzle opts) else s);
          s2 = (if float_ne (scale opts) float_one then Processor_scale P s1 (scale opts)
                else s1);
          s3 = (if alignX opts \<noteq> Align_None \<or> alignY opts \<noteq> Align_None
                   \<or> alignZ opts \<noteq> Align_None
                then Processor_align P s2 (alignX opts) (alignY opts) (alignZ opts)
                else s2);
          s4 = (if \<not> allZero F (translate opts)
                then Processor_translate P s3 (translate opts) else s3);
          s5 = (if \<not> isIdentity F (matrix opts)
                then Processor_transform P s4 (matrix opts) else s4);
          s6 = (if flipUV opts then Processor_flipUVs P s5 False True else s5)
      in s6)"
  by (simp add: process_def Let_def fst_invoke)

text \<open>
  C1. The operations that \<open>Scene::process\<close> calls, in the order of the calls, are a
  subsequence of swizzle, scale, align, translate, transform, flipUVs. Each operation
  is called exactly when its configuration is not a no-op: swizzle when the string is
  non-empty, scale when the factor differs from 1, align when some mode is not
  \<open>None\<close>, translate when the vector is not all zero, transform when the matrix is not
  the identity, flipUVs when the flag is set. Every call carries the configured
  argument. The scene after the run is the scene before it with the calls applied in
  that order; written out, it is the result of \<open>Processor::swizzle\<close> with the swizzle
  string, then \<open>Processor::scale\<close> with the factor, then \<open>Processor::align\<close> with the
  three modes, then \<open>Processor::translate\<close> with the vector, then
  \<open>Processor::transform\<close> with the matrix, then \<open>Processor::flipUVs\<close> with
  \<open>false, true\<close>, each applied to the scene left by the one before it and left out
  when its configuration is a no-op.
\<close>

theorem process_order:
  "subseq (map operation_of (snd (snd (process P F opts (s, [])))))
      [Op_swizzle, Op_scale, Op_align, Op_translate, Op_transform, Op_flipUVs] \<and>
   (Op_swizzle \<in> operation_of ` set (snd (snd (process P F opts (s, [])))) \<longleftrightarrow>
      swizzle opts \<noteq> []) \<and>
   (Op_scale \<in> operation_of ` set (snd (snd (process P F opts (s, [])))) \<longleftrightarrow>
      float_ne (scale opts) float_one) \<and>
   (Op_align \<in> operation_of ` set (snd (snd (process P F opts (s, [])))) \<longleftrightarrow>
      alignX opts \<noteq> Align_None \<or> alignY opts \<noteq> Align_None \<or> alignZ opts \<noteq> Align_None) \<and>
   (Op_translate \<in> operation_of ` set (snd (snd (process P F opts (s, [])))) \<longleftrightarrow>
      \<not> allZero F (translate opts)) \<and>
   (Op_transform \<in> operation_of ` set (snd (snd (process P F opts (s, [])))) \<longleftrightarrow>
      \<not> isIdentity F (matrix opts)) \<and>
   (Op_flipUVs \<in> operation_of ` set (snd (snd (process P F opts (s, [])))) \<longleftrightarrow>
      flipUV opts) \<and>
   set (snd (snd (process P F opts (s, [])))) \<subseteq>
     {Call_swizzle (swizzle opts), Call_scale (scale opts),
      Call_align (alignX opts) (alignY opts) (alignZ opts),
      Call_translate (translate opts), Call_transform (matrix opts),
      Call_flipUVs False True} \<and>
   fst (snd (process P F opts (s, []))) =
     foldl (perform P) s (snd (snd (process P F opts (s, [])))) \<and>
   fst (snd (process P F opts (s, []))) =
     (let s1 = (if swizzle opts \<noteq> [] then Processor_swizzle P s (swizzle opts) else s);
          s2 = (if float_ne (scale opts) float_one then Processor_scale P s1 (scale opts)
                else s1);
          s3 = (if alignX opts \<noteq> Align_None \<or> alignY opts \<noteq> Align_None
                   \<or> alignZ opts \<noteq> Align_None
                then Processor_align P s2 (alignX opts) (alignY opts) (alignZ opts)
                else s2);
          s4 = (if \<not> allZero F (translate opts)
                then Processor_translate P s3 (translate opts) else s3);
          s5 = (if \<not> isIdentity F (matrix opts)
                then Processor_transform P s4 (matrix opts) else s4);
          s6 = (if flipUV opts then Processor_flipUVs P s5 False True else s5)
      in s6)"
proof -
  let ?cs = "snd (snd (process P F opts (s, [])))"
  have order: "subseq (map operation_of ?cs)
      [Op_swizzle, Op_scale, Op_align, Op_translate, Op_transform, Op_flipUVs]"
    unfolding process_calls by (simp add: list_emb_code)
  have ops: "(Op_swizzle \<in> operation_of ` set ?cs \<longleftrightarrow> swizzle opts \<noteq> [])"
    "(Op_scale \<in> operation_of ` set ?cs \<longleftrightarrow> float_ne (scale opts) float_one)"
    "(Op_align \<in> operation_of ` set ?cs \<longleftrightarrow>
      alignX opts \<noteq> Align_None \<or> alignY opts \<noteq> Align_None \<or> alignZ opts \<noteq> Align_None)"
    "(Op_translate \<in> operation_of ` set ?cs \<longleftrightarrow> \<not> allZero F (translate opts))"
    "(Op_transform \<in> operation_of ` set ?cs \<longleftrightarrow> \<not> isIdentity F (matrix opts))"
    "(Op_flipUVs \<in> operation_of ` set ?cs \<longleftrightarrow> flipUV opts)"
    unfolding process_calls by auto
  have args: "set ?cs \<subseteq>
     {Call_swizzle (swizzle opts), Call_scale (scale opts),
      Call_align (alignX opts) (alignY opts) (alignZ opts),
      Call_translate (translate opts), Call_transform (matrix opts),
      Call_flipUVs False True}"
    unfolding process_calls by auto
  have eff: "fst (snd (process P F opts (s, []))) = foldl (perform P) s ?cs"
    using process_scene [of P F opts s "[]"] by simp
  note direct = process_result_scene [of P F opts s]
  from order ops args eff direct show ?thesis by (intro conjI)
qed

theorem process_order_witness:
  "snd (snd (process recording_processor example_flow
       (example_options \<lparr> swizzle := ''X+Z+Y-'', scale := 0x40000000, alignY := Align_Min,
                          translate := unit_x_vector, matrix := doubling_matrix,
                          flipUV := True \<rparr>) ([], [])))
     = [Call_swizzle ''X+Z+Y-'', Call_scale 0x40000000,
        Call_align Align_None Align_Min Align_None, Call_translate unit_x_vector,
        Call_transform doubling_matrix, Call_flipUVs False True] \<and>
   fst (snd (process recording_processor example_flow
       (example_options \<lparr> swizzle := ''X+Z+Y-'', scale := 0x40000000, alignY := Align_Min,
                          translate := unit_x_vector, matrix := doubling_matrix,
                          flipUV := True \<rparr>) ([], [])))
     = [Call_swizzle ''X+Z+Y-'', Call_scale 0x40000000,
        Call_align Align_None Align_Min Align_None, Call_translate unit_x_vector,
        Call_transform doubling_matrix, Call_flipUVs False True] \<and>
   snd (snd (process recording_processor example_flow example_options ([], []))) = [] \<and>
   fst (snd (process recording_processor example_flow example_options ([], []))) = []"
proof -
  let ?opts = "example_options \<lparr> swizzle := ''X+Z+Y-'', scale := 0x40000000,
      alignY := Align_Min, translate := unit_x_vector, matrix := doubling_matrix,
      flipUV := True \<rparr>"
  let ?all = "[Call_swizzle ''X+Z+Y-'', Call_scale 0x40000000,
        Call_align Align_None Align_Min Align_None, Call_translate unit_x_vector,
        Call_transform doubling_matrix, Call_flipUVs False True]"
  have on: "swizzle ?opts \<noteq> []" "float_ne (scale ?opts) float_one"
    "alignX ?opts \<noteq> Align_None \<or> alignY ?opts \<noteq> Align_None \<or> alignZ ?opts \<noteq> Align_None"
    "\<not> allZero example_flow (translate ?opts)"
    "\<not> isIdentity example_flow (matrix ?opts)" "flipUV ?opts"
    by (simp_all add: example_options_def example_flow_def unit_x_vector_def
        doubling_matrix_def identity_matrix_def float_ne_def float_eq_def float_isnan_def
        float_iszero_def float_one_def)
  have off: "swizzle example_options = []" "\<not> float_ne (scale example_options) float_one"
    "\<not> (alignX example_options \<noteq> Align_None \<or> alignY example_options \<noteq> Align_None
        \<or> alignZ example_options \<noteq> Align_None)"
    "allZero example_flow (translate example_options)"
    "isIdentity example_flow (matrix example_options)" "\<not> flipUV example_options"
    by (simp_all add: example_options_def example_flow_def zero_vector_def
        float_ne_def float_eq_def float_isnan_def float_iszero_def float_one_def)
  have vals: "swizzle ?opts = ''X+Z+Y-''" "scale ?opts = 0x40000000"
    "alignX ?opts = Align_None" "alignY ?opts = Align_Min" "alignZ ?opts = Align_None"
    "translate ?opts = unit_x_vector" "matrix ?opts = doubling_matrix"
    by (simp_all add: example_options_def)
  note on' = on [unfolded vals]
  from process_order [of recording_processor example_flow ?opts "[]"]
  have scene_on: "fst (snd (process recording_processor example_flow ?opts ([], []))) =
     (let s1 = (if swizzle ?opts \<noteq> [] then Processor_swizzle recording_processor [] (swizzle ?opts) else []);
          s2 = (if float_ne (scale ?opts) float_one then Processor_scale recording_processor s1 (scale ?opts)
                else s1);
          s3 = (if alignX ?opts \<noteq> Align_None \<or> alignY ?opts \<noteq> Align_None
                   \<or> alignZ ?opts \<noteq> Align_None
                then Processor_align recording_processor s2 (alignX ?opts) (alignY ?opts) (alignZ ?opts)
                else s2);
          s4 = (if \<not> allZero example_flow (translate ?opts)
                then Processor_translate recording_processor s3 (translate ?opts) else s3);
          s5 = (if \<not> isIdentity example_flow (matrix ?opts)
                then Processor_transform recording_processor s4 (matrix ?opts) else s4);
          s6 = (if flipUV ?opts then Processor_flipUVs recording_processor s5 False True else s5)
      in s6)"
    by (elim conjE)
  have scene1: "fst (snd (process recording_processor example_flow ?opts ([], []))) = ?all"
    unfolding scene_on Let_def
    by (simp only: vals on' simp_thms if_True) (simp add: recording_processor_def)
  have calls1: "snd (snd (process recording_processor example_flow ?opts ([], []))) = ?all"
    unfolding process_calls by (simp only: vals on' simp_thms if_True) simp
  from process_order [of recording_processor example_flow example_options "[]"]
  have scene_off: "fst (snd (process recording_processor example_flow example_options ([], []))) =
     (let s1 = (if swizzle example_options \<noteq> [] then Processor_swizzle recording_processor [] (swizzle example_options) else []);
          s2 = (if float_ne (scale example_options) float_one then Processor_scale recording_processor s1 (scale example_options)
                else s1);
          s3 = (if alignX example_options \<noteq> Align_None \<or> alignY example_options \<noteq> Align_None
                   \<or> alignZ example_options \<noteq> Align_None
                then Processor_align recording_processor s2 (alignX example_options) (alignY example_options) (alignZ example_options)
                else s2);
          s4 = (if \<not> allZero example_flow (translate example_options)
                then Processor_translate recording_processor s3 (translate example_options) else s3);
          s5 = (if \<not> isIdentity example_flow (matrix example_options)
                then Processor_transform recording_processor s4 (matrix example_options) else s4);
          s6 = (if flipUV example_options then Processor_flipUVs recording_processor s5 False True else s5)
      in s6)"
    by (elim conjE)
  have scene0: "fst (snd (process recording_processor example_flow example_options ([], []))) = []"
    unfolding scene_off Let_def using off by simp
  have calls0: "snd (snd (process recording_processor example_flow example_options ([], []))) = []"
    unfolding process_calls using off by simp
  from calls1 scene1 calls0 scene0 show ?thesis by (intro conjI)
qed

text \<open>
  C5, as the code has it. \<open>Scene::process\<close> returns success for every configuration.
  A non-empty swizzle string is handed to \<open>Processor::swizzle\<close> as it is, in the first
  call, whether or not it is a valid specification, and nothing that the operation
  reports is turned into an error result.
\<close>

theorem process_returns_ok:
  "fst (process P F opts (s, [])) = Ok \<and>
   (swizzle opts \<noteq> [] \<longrightarrow>
      (\<exists>rest. snd (snd (process P F opts (s, []))) = Call_swizzle (swizzle opts) # rest))"
proof
  show "fst (process P F opts (s, [])) = Ok"
    by (simp add: process_def Let_def)
  show "swizzle opts \<noteq> [] \<longrightarrow>
      (\<exists>rest. snd (snd (process P F opts (s, []))) = Call_swizzle (swizzle opts) # rest)"
    by (simp add: process_calls)
qed

theorem process_returns_ok_witness:
  "swizzle (example_options \<lparr> swizzle := ''Q'' \<rparr>) \<noteq> [] \<and>
   fst (process example_processor example_flow (example_options \<lparr> swizzle := ''Q'' \<rparr>) ([], []))
     = Ok \<and>
   (\<exists>rest. snd (snd (process example_processor example_flow
        (example_options \<lparr> swizzle := ''Q'' \<rparr>) ([], []))) = Call_swizzle ''Q'' # rest)"
proof -
  let ?opts = "example_options \<lparr> swizzle := ''Q'' \<rparr>"
  have q: "swizzle ?opts = ''Q''" by simp
  have ne: "swizzle ?opts \<noteq> []" by simp
  from process_returns_ok [of example_processor example_flow ?opts "[]"] ne
  have "fst (process example_processor example_flow ?opts ([], [])) = Ok"
    and "\<exists>rest. snd (snd (process example_processor example_flow ?opts ([], [])))
           = Call_swizzle (swizzle ?opts) # rest"
    by blast+
  with ne show ?thesis unfolding q by (intro conjI)
qed

text \<open>
  C5, as stated, fails: the swizzle string \<open>Q\<close> is non-empty and names no axis, and
  \<open>Scene::process\<close> returns success for it.
\<close>

theorem process_invalid_swizzle_counterexample:
  "swizzle (example_options \<lparr> swizzle := ''Q'' \<rparr>) \<noteq> [] \<and>
   \<not> valid_swizzle (swizzle (example_options \<lparr> swizzle := ''Q'' \<rparr>)) \<and>
   \<not> isError (fst (process example_processor example_flow
         (example_options \<lparr> swizzle := ''Q'' \<rparr>) ([], [])))"
  by (simp add: valid_swizzle_def axis_of_def process_def Let_def)

subsection \<open>The report\<close>

lemma sum_unat_bound:
  "sum_list (map (\<lambda>m. unat (f m :: 32 word)) ms) \<le> length ms * 2 ^ 32"
proof (induction ms)
  case Nil
  then show ?case by simp
next
  case (Cons m ms)
  have "unat (f m) < 2 ^ 32" using unsigned_less [of "f m", where ?'a = nat] by simp
  with Cons show ?case by simp
qed

lemma unat_sum_64:
  assumes "length ms < 2 ^ 32"
  shows "unat (of_nat (sum_list (map (\<lambda>m. unat (f m :: 32 word)) ms)) :: 64 word)
         = sum_list (map (\<lambda>m. unat (f m)) ms)"
proof -
  have "length ms * 2 ^ 32 < (2 ^ 32 :: nat) * 2 ^ 32"
    using assms by simp
  then have "sum_list (map (\<lambda>m. unat (f m)) ms) < (2 :: nat) ^ 64"
    using sum_unat_bound [of f ms] by simp
  then show ?thesis by (simp add: unat_of_nat)
qed

lemma report_meshes_acc:
  "report_meshes G ms acc =
     \<lparr> sceneNumVertices = sceneNumVertices acc
          + of_nat (sum_list (map (\<lambda>m. unat (mNumVertices m)) ms)),
       sceneNumFaces = sceneNumFaces acc
          + of_nat (sum_list (map (\<lambda>m. unat (mNumFaces m)) ms)),
       sceneBoundingBox = foldl (Range3f_uniteWith G) (sceneBoundingBox acc)
          (map (Processor_calculateBoundingBox G) ms),
       jsonMeshes = jsonMeshes acc @ map (\<lambda>m. jsonMesh G m (Processor_calculateBoundingBox G m)) ms \<rparr>"
  by (induction ms arbitrary: acc) (simp_all add: Let_def)


lemma getJsonReport_fields:
  "getJsonReport G opts pScene =
     JObject
       [(''type'', JString ''report''),
        (''filePath'', JString (map (\<lambda>c. if c = CHR 0x5C then CHR ''/'' else c) (input opts))),
        (''meshes'', JArray (map (\<lambda>m. jsonMesh G m (Processor_calculateBoundingBox G m)) (mMeshes pScene))),
        (''scene'', JObject
           [(''statistics'', JObject
              [(''numVertices'', JUnsigned (unat (of_nat (sum_list
                  (map (\<lambda>m. unat (mNumVertices m)) (mMeshes pScene))) :: 64 word))),
               (''numFaces'', JUnsigned (unat (of_nat (sum_list
                  (map (\<lambda>m. unat (mNumFaces m)) (mMeshes pScene))) :: 64 word))),
               (''numMeshes'', JUnsigned (unat (mNumMeshes pScene))),
               (''numMaterials'', JUnsigned (unat (mNumMaterials pScene))),
               (''numTextures'', JUnsigned (unat (mNumTextures pScene))),
               (''numLights'', JUnsigned (unat (mNumLights pScene))),
               (''numCameras'', JUnsigned (unat (mNumCameras pScene))),
               (''numAnimations'', JUnsigned (unat (mNumAnimations pScene)))]),
            (''geometry'', jsonGeometry G
               (foldl (Range3f_uniteWith G) (Range3f_invalidate G (Range3f_new G))
                  (map (Processor_calculateBoundingBox G) (mMeshes pScene))))])]"
  by (simp add: getJsonReport_def Let_def report_meshes_acc)

lemma at_scene_statistics:
  "at [''scene'', ''statistics'', ''numVertices''] (getJsonReport G opts pScene)
     = Some (JUnsigned (unat (of_nat (sum_list
          (map (\<lambda>m. unat (mNumVertices m)) (mMeshes pScene))) :: 64 word)))"
  "at [''scene'', ''statistics'', ''numFaces''] (getJsonReport G opts pScene)
     = Some (JUnsigned (unat (of_nat (sum_list
          (map (\<lambda>m. unat (mNumFaces m)) (mMeshes pScene))) :: 64 word)))"
  "at [''scene'', ''statistics'', ''numMeshes''] (getJsonReport G opts pScene)
     = Some (JUnsigned (unat (mNumMeshes pScene)))"
  by (simp_all add: getJsonReport_fields)

lemma at_scene_geometry:
  "at [''scene'', ''geometry'', ''boundingBox'', ''min''] (getJsonReport G opts pScene)
     = Some (jsonVector (Range3f_lowerBound G
         (foldl (Range3f_uniteWith G) (Range3f_invalidate G (Range3f_new G))
                  (map (Processor_calculateBoundingBox G) (mMeshes pScene)))))"
  "at [''scene'', ''geometry'', ''boundingBox'', ''max''] (getJsonReport G opts pScene)
     = Some (jsonVector (Range3f_upperBound G
         (foldl (Range3f_uniteWith G) (Range3f_invalidate G (Range3f_new G))
                  (map (Processor_calculateBoundingBox G) (mMeshes pScene)))))"
  "at [''scene'', ''geometry'', ''size''] (getJsonReport G opts pScene)
     = Some (jsonVector (Range3f_size G
         (foldl (Range3f_uniteWith G) (Range3f_invalidate G (Range3f_new G))
                  (map (Processor_calculateBoundingBox G) (mMeshes pScene)))))"
  "at [''scene'', ''geometry'', ''center''] (getJsonReport G opts pScene)
     = Some (jsonVector (Range3f_center G
         (foldl (Range3f_uniteWith G) (Range3f_invalidate G (Range3f_new G))
                  (map (Processor_calculateBoundingBox G) (mMeshes pScene)))))"
  by (simp_all add: getJsonReport_fields jsonGeometry_def Let_def)

lemma at_jsonMesh_statistics:
  "at [''statistics'', ''numVertices''] (jsonMesh G m (Processor_calculateBoundingBox G m)) = Some (JUnsigned (unat (mNumVertices m)))"
  "at [''statistics'', ''numFaces''] (jsonMesh G m (Processor_calculateBoundingBox G m)) = Some (JUnsigned (unat (mNumFaces m)))"
  "at [''statistics'', ''hasNormals''] (jsonMesh G m (Processor_calculateBoundingBox G m)) = Some (JBool (HasNormals m))"
  "at [''statistics'', ''hasTangentsAndBitangents''] (jsonMesh G m (Processor_calculateBoundingBox G m))
     = Some (JBool (HasTangentsAndBitangents m))"
  "at [''statistics'', ''hasBones''] (jsonMesh G m (Processor_calculateBoundingBox G m)) = Some (JBool (HasBones m))"
  "at [''statistics'', ''hasTexCoords''] (jsonMesh G m (Processor_calculateBoundingBox G m)) = Some (JBool (HasTextureCoords0 m))"
  "at [''statistics'', ''numTexCoordChannels''] (jsonMesh G m (Processor_calculateBoundingBox G m))
     = Some (JUnsigned (unat (GetNumUVChannels m)))"
  "at [''statistics'', ''hasVertexColors''] (jsonMesh G m (Processor_calculateBoundingBox G m)) = Some (JBool (HasVertexColors0 m))"
  "at [''statistics'', ''numColorChannels''] (jsonMesh G m (Processor_calculateBoundingBox G m))
     = Some (JUnsigned (unat (GetNumColorChannels m)))"
  by (simp_all add: jsonMesh_def jsonMeshStatistics_def)

lemma at_jsonMesh_geometry:
  "at [''geometry'', ''boundingBox'', ''min''] (jsonMesh G m (Processor_calculateBoundingBox G m))
     = Some (jsonVector (Range3f_lowerBound G (Processor_calculateBoundingBox G m)))"
  "at [''geometry'', ''boundingBox'', ''max''] (jsonMesh G m (Processor_calculateBoundingBox G m))
     = Some (jsonVector (Range3f_upperBound G (Processor_calculateBoundingBox G m)))"
  "at [''geometry'', ''size''] (jsonMesh G m (Processor_calculateBoundingBox G m))
     = Some (jsonVector (Range3f_size G (Processor_calculateBoundingBox G m)))"
  "at [''geometry'', ''center''] (jsonMesh G m (Processor_calculateBoundingBox G m))
     = Some (jsonVector (Range3f_center G (Processor_calculateBoundingBox G m)))"
  by (simp_all add: jsonMesh_def jsonGeometry_def Let_def)

lemma report_rendered:
  fixes G :: "'r Geometry" and opts :: "'m Options" and pScene :: aiScene
  defines "R \<equiv> getJsonReport G opts pScene"
    and "U \<equiv> foldl (Range3f_uniteWith G) (Range3f_invalidate G (Range3f_new G))
                 (map (Processor_calculateBoundingBox G) (mMeshes pScene))"
  assumes small: "length (mMeshes pScene) < 2 ^ 32"
  shows
   "at [''scene'', ''statistics'', ''numVertices''] R
      = Some (JUnsigned (sum_list (map (\<lambda>m. unat (mNumVertices m)) (mMeshes pScene)))) \<and>
    at [''scene'', ''statistics'', ''numFaces''] R
      = Some (JUnsigned (sum_list (map (\<lambda>m. unat (mNumFaces m)) (mMeshes pScene)))) \<and>
    at [''scene'', ''geometry'', ''boundingBox'', ''min''] R
      = Some (jsonVector (Range3f_lowerBound G U)) \<and>
    at [''scene'', ''geometry'', ''boundingBox'', ''max''] R
      = Some (jsonVector (Range3f_upperBound G U)) \<and>
    at [''scene'', ''geometry'', ''size''] R = Some (jsonVector (Range3f_size G U)) \<and>
    at [''scene'', ''geometry'', ''center''] R = Some (jsonVector (Range3f_center G U)) \<and>
    (\<exists>entries.
       field ''meshes'' R = Some (JArray entries) \<and>
       length entries = length (mMeshes pScene) \<and>
       (\<forall>i < length (mMeshes pScene).
          at [''statistics'', ''numVertices''] (entries ! i)
            = Some (JUnsigned (unat (mNumVertices (mMeshes pScene ! i)))) \<and>
          at [''statistics'', ''numFaces''] (entries ! i)
            = Some (JUnsigned (unat (mNumFaces (mMeshes pScene ! i)))) \<and>
          at [''statistics'', ''hasNormals''] (entries ! i)
            = Some (JBool (HasNormals (mMeshes pScene ! i))) \<and>
          at [''statistics'', ''hasTangentsAndBitangents''] (entries ! i)
            = Some (JBool (HasTangentsAndBitangents (mMeshes pScene ! i))) \<and>
          at [''statistics'', ''hasBones''] (entries ! i)
            = Some (JBool (HasBones (mMeshes pScene ! i))) \<and>
          at [''statistics'', ''hasTexCoords''] (entries ! i)
            = Some (JBool (HasTextureCoords0 (mMeshes pScene ! i))) \<and>
          at [''statistics'', ''numTexCoordChannels''] (entries ! i)
            = Some (JUnsigned (unat (GetNumUVChannels (mMeshes pScene ! i)))) \<and>
          at [''statistics'', ''hasVertexColors''] (entries ! i)
            = Some (JBool (HasVertexColors0 (mMeshes pScene ! i))) \<and>
          at [''statistics'', ''numColorChannels''] (entries ! i)
            = Some (JUnsigned (unat (GetNumColorChannels (mMeshes pScene ! i)))) \<and>
          at [''geometry'', ''boundingBox'', ''min''] (entries ! i)
            = Some (jsonVector (Range3f_lowerBound G
                (Processor_calculateBoundingBox G (mMeshes pScene ! i)))) \<and>
          at [''geometry'', ''boundingBox'', ''max''] (entries ! i)
            = Some (jsonVector (Range3f_upperBound G
                (Processor_calculateBoundingBox G (mMeshes pScene ! i)))) \<and>
          at [''geometry'', ''size''] (entries ! i)
            = Some (jsonVector (Range3f_size G
                (Processor_calculateBoundingBox G (mMeshes pScene ! i)))) \<and>
          at [''geometry'', ''center''] (entries ! i)
            = Some (jsonVector (Range3f_center G
                (Processor_calculateBoundingBox G (mMeshes pScene ! i))))))"
proof -
  let ?ms = "mMeshes pScene"
  let ?entries = "map (\<lambda>m. jsonMesh G m (Processor_calculateBoundingBox G m)) ?ms"
  have nv: "at [''scene'', ''statistics'', ''numVertices''] R
      = Some (JUnsigned (sum_list (map (\<lambda>m. unat (mNumVertices m)) ?ms)))"
    unfolding R_def using unat_sum_64 [OF small, of mNumVertices]
    by (simp only: at_scene_statistics)
  have nf: "at [''scene'', ''statistics'', ''numFaces''] R
      = Some (JUnsigned (sum_list (map (\<lambda>m. unat (mNumFaces m)) ?ms)))"
    unfolding R_def using unat_sum_64 [OF small, of mNumFaces]
    by (simp only: at_scene_statistics)
  have geo: "at [''scene'', ''geometry'', ''boundingBox'', ''min''] R
      = Some (jsonVector (Range3f_lowerBound G U))"
    "at [''scene'', ''geometry'', ''boundingBox'', ''max''] R
      = Some (jsonVector (Range3f_upperBound G U))"
    "at [''scene'', ''geometry'', ''size''] R = Some (jsonVector (Range3f_size G U))"
    "at [''scene'', ''geometry'', ''center''] R = Some (jsonVector (Range3f_center G U))"
    unfolding R_def U_def by (simp_all only: at_scene_geometry)
  have arr: "field ''meshes'' R = Some (JArray ?entries)"
    unfolding R_def by (simp add: getJsonReport_fields)
  have len: "length ?entries = length ?ms" by simp
  have ent: "?entries ! i = jsonMesh G (?ms ! i) (Processor_calculateBoundingBox G (?ms ! i))"
    if "i < length ?ms" for i
    using that by simp
  have each: "\<forall>i < length ?ms.
          at [''statistics'', ''numVertices''] (?entries ! i)
            = Some (JUnsigned (unat (mNumVertices (?ms ! i)))) \<and>
          at [''statistics'', ''numFaces''] (?entries ! i)
            = Some (JUnsigned (unat (mNumFaces (?ms ! i)))) \<and>
          at [''statistics'', ''hasNormals''] (?entries ! i)
            = Some (JBool (HasNormals (?ms ! i))) \<and>
          at [''statistics'', ''hasTangentsAndBitangents''] (?entries ! i)
            = Some (JBool (HasTangentsAndBitangents (?ms ! i))) \<and>
          at [''statistics'', ''hasBones''] (?entries ! i)
            = Some (JBool (HasBones (?ms ! i))) \<and>
          at [''statistics'', ''hasTexCoords''] (?entries ! i)
            = Some (JBool (HasTextureCoords0 (?ms ! i))) \<and>
          at [''statistics'', ''numTexCoordChannels''] (?entries ! i)
            = Some (JUnsigned (unat (GetNumUVChannels (?ms ! i)))) \<and>
          at [''statistics'', ''hasVertexColors''] (?entries ! i)
            = Some (JBool (HasVertexColors0 (?ms ! i))) \<and>
          at [''statistics'', ''numColorChannels''] (?entries ! i)
            = Some (JUnsigned (unat (GetNumColorChannels (?ms ! i)))) \<and>
          at [''geometry'', ''boundingBox'', ''min''] (?entries ! i)
            = Some (jsonVector (Range3f_lowerBound G
                (Processor_calculateBoundingBox G (?ms ! i)))) \<and>
          at [''geometry'', ''boundingBox'', ''max''] (?entries ! i)
            = Some (jsonVector (Range3f_upperBound G
                (Processor_calculateBoundingBox G (?ms ! i)))) \<and>
          at [''geometry'', ''size''] (?entries ! i)
            = Some (jsonVector (Range3f_size G
                (Processor_calculateBoundingBox G (?ms ! i)))) \<and>
          at [''geometry'', ''center''] (?entries ! i)
            = Some (jsonVector (Range3f_center G
                (Processor_calculateBoundingBox G (?ms ! i))))"
  proof (intro allI impI)
    fix i assume "i < length ?ms"
    from ent [OF this] show "at [''statistics'', ''numVertices''] (?entries ! i)
            = Some (JUnsigned (unat (mNumVertices (?ms ! i)))) \<and>
          at [''statistics'', ''numFaces''] (?entries ! i)
            = Some (JUnsigned (unat (mNumFaces (?ms ! i)))) \<and>
          at [''statistics'', ''hasNormals''] (?entries ! i)
            = Some (JBool (HasNormals (?ms ! i))) \<and>
          at [''statistics'', ''hasTangentsAndBitangents''] (?entries ! i)
            = Some (JBool (HasTangentsAndBitangents (?ms ! i))) \<and>
          at [''statistics'', ''hasBones''] (?entries ! i)
            = Some (JBool (HasBones (?ms ! i))) \<and>
          at [''statistics'', ''hasTexCoords''] (?entries ! i)
            = Some (JBool (HasTextureCoords0 (?ms ! i))) \<and>
          at [''statistics'', ''numTexCoordChannels''] (?entries ! i)
            = Some (JUnsigned (unat (GetNumUVChannels (?ms ! i)))) \<and>
          at [''statistics'', ''hasVertexColors''] (?entries ! i)
            = Some (JBool (HasVertexColors0 (?ms ! i))) \<and>
          at [''statistics'', ''numColorChannels''] (?entries ! i)
            = Some (JUnsigned (unat (GetNumColorChannels (?ms ! i)))) \<and>
          at [''geometry'', ''boundingBox'', ''min''] (?entries ! i)
            = Some (jsonVector (Range3f_lowerBound G
                (Processor_calculateBoundingBox G (?ms ! i)))) \<and>
          at [''geometry'', ''boundingBox'', ''max''] (?entries ! i)
            = Some (jsonVector (Range3f_upperBound G
                (Processor_calculateBoundingBox G (?ms ! i)))) \<and>
          at [''geometry'', ''size''] (?entries ! i)
            = Some (jsonVector (Range3f_size G
                (Processor_calculateBoundingBox G (?ms ! i)))) \<and>
          at [''geometry'', ''center''] (?entries ! i)
            = Some (jsonVector (Range3f_center G
                (Processor_calculateBoundingBox G (?ms ! i))))"
      by (simp only: at_jsonMesh_statistics at_jsonMesh_geometry simp_thms)
  qed
  from arr len each have ex: "\<exists>entries.
       field ''meshes'' R = Some (JArray entries) \<and>
       length entries = length ?ms \<and>
       (\<forall>i < length ?ms.
          at [''statistics'', ''numVertices''] (entries ! i)
            = Some (JUnsigned (unat (mNumVertices (?ms ! i)))) \<and>
          at [''statistics'', ''numFaces''] (entries ! i)
            = Some (JUnsigned (unat (mNumFaces (?ms ! i)))) \<and>
          at [''statistics'', ''hasNormals''] (entries ! i)
            = Some (JBool (HasNormals (?ms ! i))) \<and>
          at [''statistics'', ''hasTangentsAndBitangents''] (entries ! i)
            = Some (JBool (HasTangentsAndBitangents (?ms ! i))) \<and>
          at [''statistics'', ''hasBones''] (entries ! i)
            = Some (JBool (HasBones (?ms ! i))) \<and>
          at [''statistics'', ''hasTexCoords''] (entries ! i)
            = Some (JBool (HasTextureCoords0 (?ms ! i))) \<and>
          at [''statistics'', ''numTexCoordChannels''] (entries ! i)
            = Some (JUnsigned (unat (GetNumUVChannels (?ms ! i)))) \<and>
          at [''statistics'', ''hasVertexColors''] (entries ! i)
            = Some (JBool (HasVertexColors0 (?ms ! i))) \<and>
          at [''statistics'', ''numColorChannels''] (entries ! i)
            = Some (JUnsigned (unat (GetNumColorChannels (?ms ! i)))) \<and>
          at [''geometry'', ''boundingBox'', ''min''] (entries ! i)
            = Some (jsonVector (Range3f_lowerBound G
                (Processor_calculateBoundingBox G (?ms ! i)))) \<and>
          at [''geometry'', ''boundingBox'', ''max''] (entries ! i)
            = Some (jsonVector (Range3f_upperBound G
                (Processor_calculateBoundingBox G (?ms ! i)))) \<and>
          at [''geometry'', ''size''] (entries ! i)
            = Some (jsonVector (Range3f_size G
                (Processor_calculateBoundingBox G (?ms ! i)))) \<and>
          at [''geometry'', ''center''] (entries ! i)
            = Some (jsonVector (Range3f_center G
                (Processor_calculateBoundingBox G (?ms ! i)))))"
    by (intro exI [of _ ?entries] conjI)
  from nv nf geo ex show ?thesis by (intro conjI)
qed


text \<open>
  C6. For a scene whose mesh count fits \<open>unsigned int\<close>, the report gives as
  \<open>scene.statistics.numVertices\<close> the sum of the vertex counts of the meshes and as
  \<open>scene.statistics.numFaces\<close> the sum of their face counts. The scene geometry is
  that of the box obtained by uniting the boxes of the meshes, in mesh order, into an
  invalidated box: \<open>boundingBox.min\<close>, \<open>boundingBox.max\<close>, \<open>size\<close> and \<open>center\<close>
  are the arrays of the x, y and z components of its lower bound, upper bound, size and
  centre. \<open>meshes\<close> has one entry per mesh, in scene order, with the mesh's counts,
  presence flags and channel counts, and with the same four arrays for the box of the
  mesh.
\<close>

theorem report_contents:
  fixes G :: "'r Geometry" and opts :: "'m Options" and pScene :: aiScene
  defines "R \<equiv> getJsonReport G opts pScene"
    and "U \<equiv> foldl (Range3f_uniteWith G) (Range3f_invalidate G (Range3f_new G))
                 (map (Processor_calculateBoundingBox G) (mMeshes pScene))"
    and "vec \<equiv> \<lambda>v. JArray [JFloat (vec_x v), JFloat (vec_y v), JFloat (vec_z v)]"
  assumes small: "length (mMeshes pScene) < 2 ^ 32"
  shows
   "at [''scene'', ''statistics'', ''numVertices''] R
      = Some (JUnsigned (sum_list (map (\<lambda>m. unat (mNumVertices m)) (mMeshes pScene)))) \<and>
    at [''scene'', ''statistics'', ''numFaces''] R
      = Some (JUnsigned (sum_list (map (\<lambda>m. unat (mNumFaces m)) (mMeshes pScene)))) \<and>
    at [''scene'', ''geometry'', ''boundingBox'', ''min''] R
      = Some (vec (Range3f_lowerBound G U)) \<and>
    at [''scene'', ''geometry'', ''boundingBox'', ''max''] R
      = Some (vec (Range3f_upperBound G U)) \<and>
    at [''scene'', ''geometry'', ''size''] R = Some (vec (Range3f_size G U)) \<and>
    at [''scene'', ''geometry'', ''center''] R = Some (vec (Range3f_center G U)) \<and>
    (\<exists>entries.
       field ''meshes'' R = Some (JArray entries) \<and>
       length entries = length (mMeshes pScene) \<and>
       (\<forall>i < length (mMeshes pScene).
          at [''statistics'', ''numVertices''] (entries ! i)
            = Some (JUnsigned (unat (mNumVertices (mMeshes pScene ! i)))) \<and>
          at [''statistics'', ''numFaces''] (entries ! i)
            = Some (JUnsigned (unat (mNumFaces (mMeshes pScene ! i)))) \<and>
          at [''statistics'', ''hasNormals''] (entries ! i)
            = Some (JBool (HasNormals (mMeshes pScene ! i))) \<and>
          at [''statistics'', ''hasTangentsAndBitangents''] (entries ! i)
            = Some (JBool (HasTangentsAndBitangents (mMeshes pScene ! i))) \<and>
          at [''statistics'', ''hasBones''] (entries ! i)
            = Some (JBool (HasBones (mMeshes pScene ! i))) \<and>
          at [''statistics'', ''hasTexCoords''] (entries ! i)
            = Some (JBool (HasTextureCoords0 (mMeshes pScene ! i))) \<and>
          at [''statistics'', ''numTexCoordChannels''] (entries ! i)
            = Some (JUnsigned (unat (GetNumUVChannels (mMeshes pScene ! i)))) \<and>
          at [''statistics'', ''hasVertexColors''] (entries ! i)
            = Some (JBool (HasVertexColors0 (mMeshes pScene ! i))) \<and>
          at [''statistics'', ''numColorChannels''] (entries ! i)
            = Some (JUnsigned (unat (GetNumColorChannels (mMeshes pScene ! i)))) \<and>
          at [''geometry'', ''boundingBox'', ''min''] (entries ! i)
            = Some (vec (Range3f_lowerBound G
                (Processor_calculateBoundingBox G (mMeshes pScene ! i)))) \<and>
          at [''geometry'', ''boundingBox'', ''max''] (entries ! i)
            = Some (vec (Range3f_upperBound G
                (Processor_calculateBoundingBox G (mMeshes pScene ! i)))) \<and>
          at [''geometry'', ''size''] (entries ! i)
            = Some (vec (Range3f_size G
                (Processor_calculateBoundingBox G (mMeshes pScene ! i)))) \<and>
          at [''geometry'', ''center''] (entries ! i)
            = Some (vec (Range3f_center G
                (Processor_calculateBoundingBox G (mMeshes pScene ! i))))))"
  using report_rendered [OF small, of G opts]
  unfolding R_def U_def vec_def jsonVector_def .

theorem report_contents_witness:
  "length (mMeshes example_scene) < 2 ^ 32 \<and>
   at [''scene'', ''statistics'', ''numVertices'']
      (getJsonReport example_geometry example_options example_scene) = Some (JUnsigned 9) \<and>
   at [''scene'', ''statistics'', ''numFaces'']
      (getJsonReport example_geometry example_options example_scene) = Some (JUnsigned 5) \<and>
   at [''scene'', ''geometry'', ''boundingBox'', ''min'']
      (getJsonReport example_geometry example_options example_scene)
      = Some (JArray [JFloat 11, JFloat 12, JFloat 13]) \<and>
   at [''scene'', ''geometry'', ''boundingBox'', ''max'']
      (getJsonReport example_geometry example_options example_scene)
      = Some (JArray [JFloat 43, JFloat 44, JFloat 45]) \<and>
   at [''scene'', ''geometry'', ''size'']
      (getJsonReport example_geometry example_options example_scene)
      = Some (JArray [JFloat 14, JFloat 15, JFloat 16]) \<and>
   at [''scene'', ''geometry'', ''center'']
      (getJsonReport example_geometry example_options example_scene)
      = Some (JArray [JFloat 40, JFloat 41, JFloat 42]) \<and>
   (\<exists>entries.
      field ''meshes'' (getJsonReport example_geometry example_options example_scene)
        = Some (JArray entries) \<and>
      length entries = 2 \<and>
      at [''statistics'', ''numVertices''] (entries ! 1) = Some (JUnsigned 5) \<and>
      at [''statistics'', ''numFaces''] (entries ! 1) = Some (JUnsigned 3) \<and>
      at [''statistics'', ''hasNormals''] (entries ! 1) = Some (JBool True) \<and>
      at [''statistics'', ''hasTangentsAndBitangents''] (entries ! 1) = Some (JBool False) \<and>
      at [''statistics'', ''hasBones''] (entries ! 1) = Some (JBool False) \<and>
      at [''statistics'', ''hasTexCoords''] (entries ! 1) = Some (JBool True) \<and>
      at [''statistics'', ''numTexCoordChannels''] (entries ! 1) = Some (JUnsigned 2) \<and>
      at [''statistics'', ''hasVertexColors''] (entries ! 1) = Some (JBool False) \<and>
      at [''statistics'', ''numColorChannels''] (entries ! 1) = Some (JUnsigned 0) \<and>
      at [''geometry'', ''boundingBox'', ''min''] (entries ! 1)
        = Some (JArray [JFloat 31, JFloat 32, JFloat 33]) \<and>
      at [''geometry'', ''boundingBox'', ''max''] (entries ! 1)
        = Some (JArray [JFloat 43, JFloat 44, JFloat 45]) \<and>
      at [''geometry'', ''size''] (entries ! 1)
        = Some (JArray [JFloat 34, JFloat 35, JFloat 36]) \<and>
      at [''geometry'', ''center''] (entries ! 1)
        = Some (JArray [JFloat 40, JFloat 41, JFloat 42]) \<and>
      at [''statistics'', ''hasNormals''] (entries ! 0) = Some (JBool False) \<and>
      at [''geometry'', ''boundingBox'', ''max''] (entries ! 0)
        = Some (JArray [JFloat 20, JFloat 21, JFloat 22]))"
proof -
  let ?R = "getJsonReport example_geometry example_options example_scene"
  let ?a = "example_mesh
            [position 11 12 13, position 14 15 16, position 17 18 19, position 20 21 22]
            2 False"
  let ?b = "example_mesh
            [position 31 32 33, position 34 35 36, position 37 38 39, position 40 41 42,
             position 43 44 45]
            3 True"
  have ms: "mMeshes example_scene = [?a, ?b]"
    by (simp add: example_scene_def)
  have h: "length (mMeshes example_scene) < 2 ^ 32"
    by (simp add: ms)
  note inst = report_contents [OF h, of example_geometry example_options]
  note defs = example_mesh_def example_geometry_def position_def zero_vector_def
  from inst have scene:
    "at [''scene'', ''statistics'', ''numVertices''] ?R = Some (JUnsigned 9)"
    "at [''scene'', ''statistics'', ''numFaces''] ?R = Some (JUnsigned 5)"
    "at [''scene'', ''geometry'', ''boundingBox'', ''min''] ?R
      = Some (JArray [JFloat 11, JFloat 12, JFloat 13])"
    "at [''scene'', ''geometry'', ''boundingBox'', ''max''] ?R
      = Some (JArray [JFloat 43, JFloat 44, JFloat 45])"
    "at [''scene'', ''geometry'', ''size''] ?R
      = Some (JArray [JFloat 14, JFloat 15, JFloat 16])"
    "at [''scene'', ''geometry'', ''center''] ?R
      = Some (JArray [JFloat 40, JFloat 41, JFloat 42])"
    unfolding ms by (simp_all add: defs)
  from inst obtain entries where arr: "field ''meshes'' ?R = Some (JArray entries)"
    and len: "length entries = length (mMeshes example_scene)"
    and each: "\<forall>i < length (mMeshes example_scene).
          at [''statistics'', ''numVertices''] (entries ! i)
            = Some (JUnsigned (unat (mNumVertices (mMeshes example_scene ! i)))) \<and>
          at [''statistics'', ''numFaces''] (entries ! i)
            = Some (JUnsigned (unat (mNumFaces (mMeshes example_scene ! i)))) \<and>
          at [''statistics'', ''hasNormals''] (entries ! i)
            = Some (JBool (HasNormals (mMeshes example_scene ! i))) \<and>
          at [''statistics'', ''hasTangentsAndBitangents''] (entries ! i)
            = Some (JBool (HasTangentsAndBitangents (mMeshes example_scene ! i))) \<and>
          at [''statistics'', ''hasBones''] (entries ! i)
            = Some (JBool (HasBones (mMeshes example_scene ! i))) \<and>
          at [''statistics'', ''hasTexCoords''] (entries ! i)
            = Some (JBool (HasTextureCoords0 (mMeshes example_scene ! i))) \<and>
          at [''statistics'', ''numTexCoordChannels''] (entries ! i)
            = Some (JUnsigned (unat (GetNumUVChannels (mMeshes example_scene ! i)))) \<and>
          at [''statistics'', ''hasVertexColors''] (entries ! i)
            = Some (JBool (HasVertexColors0 (mMeshes example_scene ! i))) \<and>
          at [''statistics'', ''numColorChannels''] (entries ! i)
            = Some (JUnsigned (unat (GetNumColorChannels (mMeshes example_scene ! i)))) \<and>
          at [''geometry'', ''boundingBox'', ''min''] (entries ! i)
            = Some (JArray
                [JFloat (vec_x (Range3f_lowerBound example_geometry
                   (Processor_calculateBoundingBox example_geometry (mMeshes example_scene ! i)))),
                 JFloat (vec_y (Range3f_lowerBound example_geometry
                   (Processor_calculateBoundingBox example_geometry (mMeshes example_scene ! i)))),
                 JFloat (vec_z (Range3f_lowerBound example_geometry
                   (Processor_calculateBoundingBox example_geometry (mMeshes example_scene ! i))))]) \<and>
          at [''geometry'', ''boundingBox'', ''max''] (entries ! i)
            = Some (JArray
                [JFloat (vec_x (Range3f_upperBound example_geometry
                   (Processor_calculateBoundingBox example_geometry (mMeshes example_scene ! i)))),
                 JFloat (vec_y (Range3f_upperBound example_geometry
                   (Processor_calculateBoundingBox example_geometry (mMeshes example_scene ! i)))),
                 JFloat (vec_z (Range3f_upperBound example_geometry
                   (Processor_calculateBoundingBox example_geometry (mMeshes example_scene ! i))))]) \<and>
          at [''geometry'', ''size''] (entries ! i)
            = Some (JArray
                [JFloat (vec_x (Range3f_size example_geometry
                   (Processor_calculateBoundingBox example_geometry (mMeshes example_scene ! i)))),
                 JFloat (vec_y (Range3f_size example_geometry
                   (Processor_calculateBoundingBox example_geometry (mMeshes example_scene ! i)))),
                 JFloat (vec_z (Range3f_size example_geometry
                   (Processor_calculateBoundingBox example_geometry (mMeshes example_scene ! i))))]) \<and>
          at [''geometry'', ''center''] (entries ! i)
            = Some (JArray
                [JFloat (vec_x (Range3f_center example_geometry
                   (Processor_calculateBoundingBox example_geometry (mMeshes example_scene ! i)))),
                 JFloat (vec_y (Range3f_center example_geometry
                   (Processor_calculateBoundingBox example_geometry (mMeshes example_scene ! i)))),
                 JFloat (vec_z (Range3f_center example_geometry
                   (Processor_calculateBoundingBox example_geometry (mMeshes example_scene ! i))))])"
    by (elim conjE exE)
  have len2: "length entries = 2" using len by (simp add: ms)
  have i1: "(1::nat) < length (mMeshes example_scene)"
    and i0: "(0::nat) < length (mMeshes example_scene)"
    by (simp_all add: ms)
  have n1: "mMeshes example_scene ! 1 = ?b" and n0: "mMeshes example_scene ! 0 = ?a"
    by (simp_all add: ms)
  from each [rule_format, OF i1] have e1:
    "at [''statistics'', ''numVertices''] (entries ! 1) = Some (JUnsigned 5)"
    "at [''statistics'', ''numFaces''] (entries ! 1) = Some (JUnsigned 3)"
    "at [''statistics'', ''hasNormals''] (entries ! 1) = Some (JBool True)"
    "at [''statistics'', ''hasTangentsAndBitangents''] (entries ! 1) = Some (JBool False)"
    "at [''statistics'', ''hasBones''] (entries ! 1) = Some (JBool False)"
    "at [''statistics'', ''hasTexCoords''] (entries ! 1) = Some (JBool True)"
    "at [''statistics'', ''numTexCoordChannels''] (entries ! 1) = Some (JUnsigned 2)"
    "at [''statistics'', ''hasVertexColors''] (entries ! 1) = Some (JBool False)"
    "at [''statistics'', ''numColorChannels''] (entries ! 1) = Some (JUnsigned 0)"
    "at [''geometry'', ''boundingBox'', ''min''] (entries ! 1)
        = Some (JArray [JFloat 31, JFloat 32, JFloat 33])"
    "at [''geometry'', ''boundingBox'', ''max''] (entries ! 1)
        = Some (JArray [JFloat 43, JFloat 44, JFloat 45])"
    "at [''geometry'', ''size''] (entries ! 1)
        = Some (JArray [JFloat 34, JFloat 35, JFloat 36])"
    "at [''geometry'', ''center''] (entries ! 1)
        = Some (JArray [JFloat 40, JFloat 41, JFloat 42])"
    unfolding n1 by (simp_all add: defs)
  from each [rule_format, OF i0] have e0:
    "at [''statistics'', ''hasNormals''] (entries ! 0) = Some (JBool False)"
    "at [''geometry'', ''boundingBox'', ''max''] (entries ! 0)
        = Some (JArray [JFloat 20, JFloat 21, JFloat 22])"
    unfolding n0 by (simp_all add: defs)
  from arr len2 e1 e0 have "\<exists>entries.
      field ''meshes'' ?R = Some (JArray entries) \<and>
      length entries = 2 \<and>
      at [''statistics'', ''numVertices''] (entries ! 1) = Some (JUnsigned 5) \<and>
      at [''statistics'', ''numFaces''] (entries ! 1) = Some (JUnsigned 3) \<and>
      at [''statistics'', ''hasNormals''] (entries ! 1) = Some (JBool True) \<and>
      at [''statistics'', ''hasTangentsAndBitangents''] (entries ! 1) = Some (JBool False) \<and>
      at [''statistics'', ''hasBones''] (entries ! 1) = Some (JBool False) \<and>
      at [''statistics'', ''hasTexCoords''] (entries ! 1) = Some (JBool True) \<and>
      at [''statistics'', ''numTexCoordChannels''] (entries ! 1) = Some (JUnsigned 2) \<and>
      at [''statistics'', ''hasVertexColors''] (entries ! 1) = Some (JBool False) \<and>
      at [''statistics'', ''numColorChannels''] (entries ! 1) = Some (JUnsigned 0) \<and>
      at [''geometry'', ''boundingBox'', ''min''] (entries ! 1)
        = Some (JArray [JFloat 31, JFloat 32, JFloat 33]) \<and>
      at [''geometry'', ''boundingBox'', ''max''] (entries ! 1)
        = Some (JArray [JFloat 43, JFloat 44, JFloat 45]) \<and>
      at [''geometry'', ''size''] (entries ! 1)
        = Some (JArray [JFloat 34, JFloat 35, JFloat 36]) \<and>
      at [''geometry'', ''center''] (entries ! 1)
        = Some (JArray [JFloat 40, JFloat 41, JFloat 42]) \<and>
      at [''statistics'', ''hasNormals''] (entries ! 0) = Some (JBool False) \<and>
      at [''geometry'', ''boundingBox'', ''max''] (entries ! 0)
        = Some (JArray [JFloat 20, JFloat 21, JFloat 22])"
    by (intro exI [of _ entries] conjI)
  with h scene show ?thesis by (intro conjI)
qed

lemma spec_geometry_invalidated:
  "Range3f_invalidate (spec_geometry N) (Range3f_new (spec_geometry N)) = Range3_invalid"
  by (simp add: spec_geometry_def)

text \<open>
  C7. For a scene without meshes the report is produced all the same, with the boxes
  of the specification: it is a report document whose \<open>meshes\<close> array is empty and
  whose scene-wide vertex, face and mesh counts are zero. The scene box it ends with is
  the invalid range. Size and centre are taken from that range without asking whether
  it is valid, so the report shows the zero vector for both, and as bounds the corners
  that an invalid range shows.
\<close>

theorem report_without_meshes:
  fixes N :: Range3_params and opts :: "'m Options" and pScene :: aiScene
  defines "R \<equiv> getJsonReport (spec_geometry N) opts pScene"
  assumes empty: "mMeshes pScene = []"
  shows
   "field ''type'' R = Some (JString ''report'') \<and>
    field ''meshes'' R = Some (JArray []) \<and>
    at [''scene'', ''statistics'', ''numVertices''] R = Some (JUnsigned 0) \<and>
    at [''scene'', ''statistics'', ''numFaces''] R = Some (JUnsigned 0) \<and>
    at [''scene'', ''statistics'', ''numMeshes''] R = Some (JUnsigned 0) \<and>
    sceneBoundingBox
      (report_meshes (spec_geometry N) (mMeshes pScene)
         \<lparr> sceneNumVertices = 0, sceneNumFaces = 0,
           sceneBoundingBox =
             Range3f_invalidate (spec_geometry N) (Range3f_new (spec_geometry N)),
           jsonMeshes = [] \<rparr>) = Range3_invalid \<and>
    at [''scene'', ''geometry'', ''boundingBox'', ''min''] R
      = Some (JArray [JFloat (vec_x (invalid_lower N)), JFloat (vec_y (invalid_lower N)),
                      JFloat (vec_z (invalid_lower N))]) \<and>
    at [''scene'', ''geometry'', ''boundingBox'', ''max''] R
      = Some (JArray [JFloat (vec_x (invalid_upper N)), JFloat (vec_y (invalid_upper N)),
                      JFloat (vec_z (invalid_upper N))]) \<and>
    at [''scene'', ''geometry'', ''size''] R = Some (JArray [JFloat 0, JFloat 0, JFloat 0]) \<and>
    at [''scene'', ''geometry'', ''center''] R = Some (JArray [JFloat 0, JFloat 0, JFloat 0])"
proof -
  have doc: "field ''type'' R = Some (JString ''report'')"
    "field ''meshes'' R = Some (JArray [])"
    unfolding R_def getJsonReport_fields using empty by simp_all
  have stat: "at [''scene'', ''statistics'', ''numVertices''] R = Some (JUnsigned 0)"
    "at [''scene'', ''statistics'', ''numFaces''] R = Some (JUnsigned 0)"
    "at [''scene'', ''statistics'', ''numMeshes''] R = Some (JUnsigned 0)"
    unfolding R_def at_scene_statistics using empty by (simp_all add: mNumMeshes_def)
  have box: "sceneBoundingBox
      (report_meshes (spec_geometry N) (mMeshes pScene)
         \<lparr> sceneNumVertices = 0, sceneNumFaces = 0,
           sceneBoundingBox =
             Range3f_invalidate (spec_geometry N) (Range3f_new (spec_geometry N)),
           jsonMeshes = [] \<rparr>) = Range3_invalid"
    unfolding empty by (simp add: spec_geometry_invalidated)
  have geo: "at [''scene'', ''geometry'', ''boundingBox'', ''min''] R
      = Some (JArray [JFloat (vec_x (invalid_lower N)), JFloat (vec_y (invalid_lower N)),
                      JFloat (vec_z (invalid_lower N))])"
    "at [''scene'', ''geometry'', ''boundingBox'', ''max''] R
      = Some (JArray [JFloat (vec_x (invalid_upper N)), JFloat (vec_y (invalid_upper N)),
                      JFloat (vec_z (invalid_upper N))])"
    "at [''scene'', ''geometry'', ''size''] R = Some (JArray [JFloat 0, JFloat 0, JFloat 0])"
    "at [''scene'', ''geometry'', ''center''] R = Some (JArray [JFloat 0, JFloat 0, JFloat 0])"
    unfolding R_def at_scene_geometry empty
    by (simp_all add: spec_geometry_invalidated jsonVector_def) (simp_all add: spec_geometry_def)
  from doc stat box geo show ?thesis by (intro conjI)
qed

theorem report_without_meshes_witness:
  "mMeshes (example_scene \<lparr> mMeshes := [] \<rparr>) = [] \<and>
   field ''meshes''
     (getJsonReport (spec_geometry example_range_params) example_options
        (example_scene \<lparr> mMeshes := [] \<rparr>))
     = Some (JArray []) \<and>
   at [''scene'', ''statistics'', ''numVertices'']
     (getJsonReport (spec_geometry example_range_params) example_options
        (example_scene \<lparr> mMeshes := [] \<rparr>))
     = Some (JUnsigned 0) \<and>
   at [''scene'', ''geometry'', ''boundingBox'', ''min'']
     (getJsonReport (spec_geometry example_range_params) example_options
        (example_scene \<lparr> mMeshes := [] \<rparr>))
     = Some (JArray [JFloat 0x7F7FFFFF, JFloat 0x7F7FFFFF, JFloat 0x7F7FFFFF]) \<and>
   at [''scene'', ''geometry'', ''boundingBox'', ''max'']
     (getJsonReport (spec_geometry example_range_params) example_options
        (example_scene \<lparr> mMeshes := [] \<rparr>))
     = Some (JArray [JFloat 0xFF7FFFFF, JFloat 0xFF7FFFFF, JFloat 0xFF7FFFFF]) \<and>
   at [''scene'', ''geometry'', ''size'']
     (getJsonReport (spec_geometry example_range_params) example_options
        (example_scene \<lparr> mMeshes := [] \<rparr>))
     = Some (JArray [JFloat 0, JFloat 0, JFloat 0]) \<and>
   at [''scene'', ''geometry'', ''center'']
     (getJsonReport (spec_geometry example_range_params) example_options
        (example_scene \<lparr> mMeshes := [] \<rparr>))
     = Some (JArray [JFloat 0, JFloat 0, JFloat 0])"
proof -
  let ?sc = "example_scene \<lparr> mMeshes := [] \<rparr>"
  let ?R = "getJsonReport (spec_geometry example_range_params) example_options ?sc"
  have h: "mMeshes ?sc = []" by simp
  note inst = report_without_meshes [OF h, of example_range_params example_options]
  from inst have "field ''meshes'' ?R = Some (JArray [])"
    and "at [''scene'', ''statistics'', ''numVertices''] ?R = Some (JUnsigned 0)"
    and "at [''scene'', ''geometry'', ''boundingBox'', ''min''] ?R
      = Some (JArray [JFloat 0x7F7FFFFF, JFloat 0x7F7FFFFF, JFloat 0x7F7FFFFF])"
    and "at [''scene'', ''geometry'', ''boundingBox'', ''max''] ?R
      = Some (JArray [JFloat 0xFF7FFFFF, JFloat 0xFF7FFFFF, JFloat 0xFF7FFFFF])"
    and "at [''scene'', ''geometry'', ''size''] ?R = Some (JArray [JFloat 0, JFloat 0, JFloat 0])"
    and "at [''scene'', ''geometry'', ''center''] ?R = Some (JArray [JFloat 0, JFloat 0, JFloat 0])"
    by (simp_all add: example_range_params_def position_def)
  with h show ?thesis by (intro conjI)
qed

end
